theory Spec2Isabelle
  imports Main "HOL-Library.Multiset"
begin

section \<open>Python string and path primitives used by tools/lint.py\<close>

text \<open>
  The script is Python 2: a \<open>str\<close> is a byte string, modelled as \<open>string\<close>.
  The path functions are those of \<open>posixpath\<close>, the \<open>os.path\<close> of the platforms
  on which git prints the \<open>/\<close>-separated names that the script classifies.
\<close>

definition is_space :: "char \<Rightarrow> bool" where
  "is_space c = (c = CHR '' '' \<or> c = CHR 0x09 \<or> c = CHR 0x0A \<or> c = CHR 0x0B \<or>
                 c = CHR 0x0C \<or> c = CHR 0x0D)"

text \<open>\<open>s.strip()\<close>: leading and trailing whitespace removed.\<close>

definition strip :: "string \<Rightarrow> string" where
  "strip s = rev (dropWhile is_space (rev (dropWhile is_space s)))"

text \<open>\<open>s.rstrip('/')\<close>.\<close>

definition rstrip_slash :: "string \<Rightarrow> string" where
  "rstrip_slash s = rev (dropWhile (\<lambda>c. c = CHR ''/'') (rev s))"

text \<open>\<open>s.split(sep)\<close> for a one-character separator: never the empty list.\<close>

fun split_chr :: "char \<Rightarrow> string \<Rightarrow> string list" where
  "split_chr sep [] = [[]]"
| "split_chr sep (c # cs) =
     (if c = sep then [] # split_chr sep cs
      else (case split_chr sep cs of
              [] \<Rightarrow> [[c]]
            | w # ws \<Rightarrow> (c # w) # ws))"

text \<open>\<open>s.split(sep, 1)\<close>: one element when \<open>sep\<close> does not occur, two otherwise.\<close>

definition split1 :: "char \<Rightarrow> string \<Rightarrow> string list" where
  "split1 sep s =
     (if sep \<in> set s
      then [takeWhile (\<lambda>c. c \<noteq> sep) s, tl (dropWhile (\<lambda>c. c \<noteq> sep) s)]
      else [s])"

text \<open>\<open>s.startswith(p)\<close> and \<open>s.endswith(p)\<close>.\<close>

definition startswith :: "string \<Rightarrow> string \<Rightarrow> bool" where
  "startswith s p = (take (length p) s = p)"

definition endswith :: "string \<Rightarrow> string \<Rightarrow> bool" where
  "endswith s p = (length p \<le> length s \<and> drop (length s - length p) s = p)"

text \<open>\<open>s.rfind(c)\<close>: the last index of \<open>c\<close>, or \<open>-1\<close>.\<close>

definition rfind :: "string \<Rightarrow> char \<Rightarrow> int" where
  "rfind s c =
     (if c \<in> set s
      then int (length s) - 1 - int (length (takeWhile (\<lambda>x. x \<noteq> c) (rev s)))
      else - 1)"

text \<open>\<open>s.lower()\<close> on a byte string: the ASCII capitals are mapped.\<close>

definition lower_chr :: "char \<Rightarrow> char" where
  "lower_chr c =
     (let n = (of_char c :: nat) in if 65 \<le> n \<and> n \<le> 90 then char_of (n + 32) else c)"

definition lower :: "string \<Rightarrow> string" where
  "lower s = map lower_chr s"

text \<open>
  \<open>s.splitlines()\<close> on a byte string: lines end at \<open>\n\<close>, \<open>\r\<close> or \<open>\r\n\<close>, and a
  final line end opens no further line.
\<close>

fun splitlines_from :: "string \<Rightarrow> string \<Rightarrow> string list" where
  "splitlines_from cur [] = (if cur = [] then [] else [rev cur])"
| "splitlines_from cur (c # cs) =
     (if c = CHR 0x0A then rev cur # splitlines_from [] cs
      else if c = CHR 0x0D then
        (case cs of
           [] \<Rightarrow> [rev cur]
         | d # ds \<Rightarrow> if d = CHR 0x0A then rev cur # splitlines_from [] ds
                     else rev cur # splitlines_from [] cs)
      else splitlines_from (c # cur) cs)"

definition splitlines :: "string \<Rightarrow> string list" where
  "splitlines s = splitlines_from [] s"

text \<open>
  \<open>os.path.split(p)\<close>: the cut is after the last slash; trailing slashes leave the
  head unless the head is made of slashes only. \<open>os.path.dirname\<close> is its head.
\<close>

definition path_split :: "string \<Rightarrow> string \<times> string" where
  "path_split p =
     (let i = nat (rfind p (CHR ''/'') + 1);
          head = take i p;
          tail = drop i p
      in (if head \<noteq> [] \<and> head \<noteq> replicate (length head) (CHR ''/'')
          then rstrip_slash head else head, tail))"

definition dirname :: "string \<Rightarrow> string" where
  "dirname p = fst (path_split p)"

text \<open>
  \<open>os.path.splitext(p)\<close>: the extension starts at the last dot, provided that dot
  comes after the last slash and some character between them is not a dot.
\<close>

definition splitext :: "string \<Rightarrow> string \<times> string" where
  "splitext p =
     (let sepIndex = rfind p (CHR ''/'');
          dotIndex = rfind p (CHR ''.'')
      in if dotIndex > sepIndex \<and>
            list_ex (\<lambda>c. c \<noteq> CHR ''.'')
              (take (nat (dotIndex - (sepIndex + 1))) (drop (nat (sepIndex + 1)) p))
         then (take (nat dotIndex) p, drop (nat dotIndex) p)
         else (p, []))"

section \<open>Errors, printed lines, state and collaborators\<close>

text \<open>
  The exceptions that leave the script's functions. \<open>Exception msg\<close> is what
  \<open>utils.GetCommandOutput\<close> raises for a command that fails; \<open>str(e)\<close> is \<open>msg\<close>.
  \<open>ImportError\<close> is re-raised by \<open>do_cpp_lint\<close> after its note on standard error.
  \<open>KeyboardInterrupt\<close> and \<open>SystemExit\<close> are not instances of \<open>Exception\<close>; \<open>IOError msg\<close>
  is what a \<open>print\<close> raises when the line cannot be written.
\<close>

datatype error =
    Exception string
  | IndexError
  | UnboundLocalError
  | ImportError
  | SystemExit int
  | KeyboardInterrupt
  | IOError string

text \<open>
  One constructor for each \<open>print\<close> (or \<open>sys.stdout.write\<close>) of the script, with the
  values that are formatted into the line.
\<close>

datatype event =
    BaseNotSpecified string
      \<comment> \<open>\<open>'Base is not specified, will use %s as comparasion base for linting'\<close>\<close>
  | SkipCommonDir
      \<comment> \<open>\<open>'Skip common dir'\<close>\<close>
  | IgnoredError string int string string int
      \<comment> \<open>\<open>'Ignored Error:\n  %s(%s):  %s  [%s] [%d]\n'\<close>: filename, linenum, message,
          category, confidence\<close>
  | CppBanner
      \<comment> \<open>\<open>'_____ do cpp lint'\<close>\<close>
  | CppChangesetEmpty
      \<comment> \<open>\<open>'changeset is empty except python files'\<close>\<close>
  | IgnoringFile string
      \<comment> \<open>\<open>"Ignoring file %s"\<close>\<close>
  | CppFile string
      \<comment> \<open>\<open>print filename\<close>\<close>
  | SkippingFile string
      \<comment> \<open>\<open>"Skipping file %s"\<close>\<close>
  | CpplintErrors int
      \<comment> \<open>\<open>"cpplint errors %d\n"\<close>\<close>
  | PyBanner
      \<comment> \<open>\<open>'_____ do python lint'\<close>\<close>
  | JsBanner
      \<comment> \<open>\<open>'\n_____ do JavaScript lint'\<close>\<close>
  | FileDoesNotExist string
      \<comment> \<open>\<open>"Skipping file %s: File doesn't exist."\<close>\<close>
  | PylintFile string
      \<comment> \<open>\<open>'pylint %s'\<close>\<close>
  | JslintFile string
      \<comment> \<open>\<open>'jslint %s'\<close>\<close>
  | CheckerOutput string
      \<comment> \<open>\<open>print output\<close>\<close>
  | ExceptionText string
      \<comment> \<open>\<open>print e\<close>\<close>
  | ImportHint
      \<comment> \<open>\<open>'You have error for python importing, please check your PYTHONPATH'\<close>\<close>
  | PylintErrors int
      \<comment> \<open>\<open>"pylint errors %d\n"\<close>\<close>
  | JslintErrors int
      \<comment> \<open>\<open>"jslint errors %d\n"\<close>\<close>
  | TotalErrors int
      \<comment> \<open>\<open>"The total errors found: %d\n"\<close>\<close>

text \<open>
  What the process can change: the world outside it (repository, file system, the
  module search path; of a type the script never looks into), its working directory,
  its standard output, and the state of the imported \<open>cpplint\<close> module.
\<close>

record ('w, 'c) state =
  world :: 'w
  cwd :: string
  out :: "event list"
  lint :: 'c

definition emit :: "event \<Rightarrow> ('w, 'c) state \<Rightarrow> ('w, 'c) state" where
  "emit e st = st\<lparr>out := out st @ [e]\<rparr>"

text \<open>
  An error function of \<open>cpplint\<close>: called with filename, linenum, category, confidence
  and message, it acts on the state.
\<close>

type_synonym ('w, 'c) handler =
  "string \<Rightarrow> int \<Rightarrow> string \<Rightarrow> int \<Rightarrow> string \<Rightarrow> ('w, 'c) state \<Rightarrow> ('w, 'c) state"

text \<open>
  The collaborators that are not part of tools/lint.py are parameters:
  \<^item> \<open>GitExe\<close> and \<open>GetCommandOutput\<close> of \<open>utils\<close>: a command run in the world and
    the working directory returns its output (\<open>Inr\<close>) or raises \<open>Exception\<close> with a
    message (\<open>Inl\<close>), and may change the world;
  \<^item> \<open>os.path.exists\<close> and \<open>os.path.abspath\<close>, which depend on the working directory;
  \<^item> \<open>sys.platform\<close>;
  \<^item> whether a module can be imported, and \<open>TryAddDepotToolsToPythonPath\<close>;
  \<^item> of \<open>cpplint\<close>: \<open>ParseArguments\<close>, the original \<open>Error\<close>, \<open>ProcessFile\<close> (which
    reports through the error function installed at the time, given here as its first
    argument) and the error count of its state;
  \<^item> of \<open>gcl\<close>: \<open>GetCodeReviewSetting\<close> and the two default patterns;
  \<^item> \<open>re.compile(pattern).match(s)\<close> for the patterns read from the configuration.
\<close>

record ('w, 'c) env =
  GitExe :: string
  GetCommandOutput :: "'w \<Rightarrow> string \<Rightarrow> string list \<Rightarrow> (string + string) \<times> 'w"
  path_exists :: "'w \<Rightarrow> string \<Rightarrow> string \<Rightarrow> bool"
  abspath :: "string \<Rightarrow> string \<Rightarrow> string"
  platform :: string
  can_import :: "'w \<Rightarrow> string \<Rightarrow> bool"
  TryAddDepotToolsToPythonPath :: "'w \<Rightarrow> 'w"
  ParseArguments :: "string list \<Rightarrow> error + string list"
  cpplint_Error :: "('w, 'c) handler"
  ProcessFile :: "('w, 'c) handler \<Rightarrow> string \<Rightarrow> ('w, 'c) state \<Rightarrow> ('w, 'c) state"
  cpplint_error_count :: "'c \<Rightarrow> int"
  GetCodeReviewSetting :: "'w \<Rightarrow> string \<Rightarrow> string option"
  DEFAULT_LINT_REGEX :: string
  DEFAULT_LINT_IGNORE_REGEX :: string
  re_match :: "string \<Rightarrow> string \<Rightarrow> bool"

text \<open>\<open>GetCommandOutput(cmd)\<close> run from a state: the result and the state after it.\<close>

definition run_command ::
  "('w, 'c) env \<Rightarrow> string list \<Rightarrow> ('w, 'c) state \<Rightarrow> (string + string) \<times> ('w, 'c) state" where
  "run_command env cmd st =
     (case GetCommandOutput env (world st) (cwd st) cmd of
        (r, w) \<Rightarrow> (r, st\<lparr>world := w\<rparr>))"

section \<open>Change enumeration: \<open>get_change_file_list\<close>\<close>

definition PYTHON_EXTS :: "string list" where
  "PYTHON_EXTS = [''.py'']"

definition JS_EXTS :: "string list" where
  "JS_EXTS = [''.js'']"

text \<open>\<open>re.compile('common').match(s)\<close>: the pattern is matched at the start of \<open>s\<close>.\<close>

definition common_regex_match :: "string \<Rightarrow> bool" where
  "common_regex_match s = startswith s ''common''"

text \<open>\<open>[line.strip() for line in output.strip().split('\n')]\<close>\<close>

definition changes_of :: "string \<Rightarrow> string list" where
  "changes_of output = map strip (split_chr (CHR 0x0A) (strip output))"

text \<open>
  One round of the loop over \<open>changes\<close>, on the state and the three lists built so far.
\<close>

definition classify_change ::
  "string \<Rightarrow> ('w, 'c) state \<times> string list \<times> string list \<times> string list \<Rightarrow>
     ('w, 'c) state \<times> string list \<times> string list \<times> string list" where
  "classify_change change acc =
     (case acc of (st, pyfiles, jsfiles, others) \<Rightarrow>
        (case splitext change of (root, ext) \<Rightarrow>
           if common_regex_match (dirname change)
           then (emit SkipCommonDir st, pyfiles, jsfiles, others)
           else if lower ext \<in> set PYTHON_EXTS then (st, pyfiles @ [change], jsfiles, others)
           else if lower ext \<in> set JS_EXTS then (st, pyfiles, jsfiles @ [change], others)
           else (st, pyfiles, jsfiles, others @ [change])))"

fun classify_loop ::
  "string list \<Rightarrow> ('w, 'c) state \<times> string list \<times> string list \<times> string list \<Rightarrow>
     ('w, 'c) state \<times> string list \<times> string list \<times> string list" where
  "classify_loop [] acc = acc"
| "classify_loop (change # changes) acc = classify_loop changes (classify_change change acc)"

definition get_change_file_list ::
  "('w, 'c) env \<Rightarrow> string \<Rightarrow> ('w, 'c) state \<Rightarrow>
     error + ((string list \<times> string list \<times> string list) \<times> ('w, 'c) state)" where
  "get_change_file_list env base st =
     (case run_command env [GitExe env, ''diff'', ''--name-only'', base] st of
        (Inl msg, st1) \<Rightarrow> Inl (Exception msg)
      | (Inr output, st1) \<Rightarrow>
          (case classify_loop (changes_of output) (st1, [], [], []) of
             (st2, pyfiles, jsfiles, others) \<Rightarrow> Inr ((pyfiles, jsfiles, others), st2)))"

section \<open>Base resolution: \<open>repo_is_dirty\<close> and \<open>get_tracking_remote\<close>\<close>

definition repo_is_dirty ::
  "('w, 'c) env \<Rightarrow> ('w, 'c) state \<Rightarrow> error + (bool \<times> ('w, 'c) state)" where
  "repo_is_dirty env st =
     (case run_command env [GitExe env, ''diff'', ''HEAD''] st of
        (Inl msg, st1) \<Rightarrow> Inl (Exception msg)
      | (Inr output, st1) \<Rightarrow> Inr (strip output \<noteq> '''', st1))"

text \<open>\<open>xs[1]\<close>, which raises \<open>IndexError\<close> on a list shorter than two.\<close>

definition item1 :: "'a list \<Rightarrow> error + 'a" where
  "item1 xs = (case xs of [] \<Rightarrow> Inl IndexError | x # ys \<Rightarrow>
                 (case ys of [] \<Rightarrow> Inl IndexError | y # zs \<Rightarrow> Inr y))"

text \<open>
  \<open>branch[1:].strip().split(' ', 1)[1].strip().split(' ', 1)[1].strip()\<close>: what follows
  the name and the hash on the line of the active branch.
\<close>

definition branch_detail :: "string \<Rightarrow> error + string" where
  "branch_detail branch =
     (case item1 (split1 (CHR '' '') (strip (drop 1 branch))) of
        Inl e \<Rightarrow> Inl e
      | Inr after_name \<Rightarrow>
          (case item1 (split1 (CHR '' '') (strip after_name)) of
             Inl e \<Rightarrow> Inl e
           | Inr after_hash \<Rightarrow> Inr (strip after_hash)))"

text \<open>
  The branch named between the brackets, kept only if some line of the listing starts
  with it or with \<open>remotes/\<close> and it. (\<open>split\<close> has a first element always.)
\<close>

definition bracket_remote :: "string list \<Rightarrow> string \<Rightarrow> string" where
  "bracket_remote branches detail =
     (let remote0 = hd (split1 (CHR '']'') (drop 1 detail));
          remote = strip (hd (split1 (CHR '':'') remote0));
          exists = filter (\<lambda>r_branch. startswith (strip r_branch) (''remotes/'' @ remote) \<or>
                                       startswith (strip r_branch) remote) branches
      in if length exists = 0 then '''' else remote)"

text \<open>
  The loop over the lines, which ends at the first line that starts with a star.
  \<open>None\<close>: no line did, and \<open>remote\<close> was never assigned.
\<close>

fun active_remote :: "string list \<Rightarrow> string list \<Rightarrow> error + string option" where
  "active_remote branches [] = Inr None"
| "active_remote branches (branch # rest) =
     (if \<not> startswith branch ''*'' then active_remote branches rest
      else (case branch_detail branch of
              Inl e \<Rightarrow> Inl e
            | Inr detail \<Rightarrow>
                Inr (Some (if startswith detail ''['' then bracket_remote branches detail
                           else ''''))))"

definition get_tracking_remote ::
  "('w, 'c) env \<Rightarrow> ('w, 'c) state \<Rightarrow> error + (string \<times> ('w, 'c) state)" where
  "get_tracking_remote env st =
     (case run_command env [GitExe env, ''branch'', ''-vv'', ''-a''] st of
        (Inl msg, st1) \<Rightarrow> Inl (Exception msg)
      | (Inr output, st1) \<Rightarrow>
          (let branches = split_chr (CHR 0x0A) output in
           case active_remote branches branches of
             Inl e \<Rightarrow> Inl e
           | Inr None \<Rightarrow> Inl UnboundLocalError
           | Inr (Some remote) \<Rightarrow>
               (case (if remote = ''''
                      then (case repo_is_dirty env st1 of
                              Inl e \<Rightarrow> Inl e
                            | Inr (dirty, st2) \<Rightarrow>
                                Inr (if dirty then ''HEAD'' else ''HEAD~'', st2))
                      else Inr (remote, st1)) of
                  Inl e \<Rightarrow> Inl e
                | Inr (remote2, st3) \<Rightarrow> Inr (remote2, emit (BaseNotSpecified remote2) st3))))"

section \<open>The style linter: \<open>do_cpp_lint\<close>\<close>

text \<open>The error function installed in place of \<open>cpplint.Error\<close>.\<close>

definition MyError :: "('w, 'c) handler \<Rightarrow> ('w, 'c) handler" where
  "MyError origin_error filename linenum category confidence message st =
     (if endswith filename ''resource.h''
      then emit (IgnoredError filename linenum message category confidence) st
      else if endswith filename ''messages.h'' \<and> linenum = 0 \<and>
              category = ''build/header_guard''
      then emit (IgnoredError filename linenum message category confidence) st
      else origin_error filename linenum category confidence message st)"

text \<open>\<open>x = gcl.GetCodeReviewSetting(key); if not x: x = default\<close>\<close>

definition setting_or :: "string option \<Rightarrow> string \<Rightarrow> string" where
  "setting_or x dflt = (case x of None \<Rightarrow> dflt | Some v \<Rightarrow> if v = '''' then dflt else v)"

definition cpp_lint_file ::
  "('w, 'c) env \<Rightarrow> string \<Rightarrow> string \<Rightarrow> string \<Rightarrow> ('w, 'c) state \<Rightarrow> ('w, 'c) state" where
  "cpp_lint_file env white_list black_list fname st =
     (if re_match env white_list fname
      then (if re_match env black_list fname
            then emit (IgnoringFile fname) st
            else ProcessFile env (MyError (cpplint_Error env)) fname (emit (CppFile fname) st))
      else emit (SkippingFile fname) st)"

fun cpp_loop ::
  "('w, 'c) env \<Rightarrow> string \<Rightarrow> string \<Rightarrow> string list \<Rightarrow> ('w, 'c) state \<Rightarrow> ('w, 'c) state" where
  "cpp_loop env white_list black_list [] st = st"
| "cpp_loop env white_list black_list (fname # filenames) st =
     cpp_loop env white_list black_list filenames (cpp_lint_file env white_list black_list fname st)"

definition do_cpp_lint ::
  "('w, 'c) env \<Rightarrow> string list \<Rightarrow> string list \<Rightarrow> ('w, 'c) state \<Rightarrow>
     error + (int \<times> ('w, 'c) state)" where
  "do_cpp_lint env changeset args st =
     (let st1 = (if can_import env (world st) ''cpplint'' then st
                 else st\<lparr>world := TryAddDepotToolsToPythonPath env (world st)\<rparr>)
      in if \<not> (can_import env (world st1) ''cpplint'' \<and>
                can_import env (world st1) ''cpplint_chromium'' \<and>
                can_import env (world st1) ''gcl'')
         then Inl ImportError
         else (let st2 = emit CppBanner st1 in
               if length changeset = 0 then Inr (0, emit CppChangesetEmpty st2)
               else (case ParseArguments env (args @ changeset) of
                       Inl e \<Rightarrow> Inl e
                     | Inr filenames \<Rightarrow>
                         (let white_list = setting_or (GetCodeReviewSetting env (world st2) ''LINT_REGEX'')
                                             (DEFAULT_LINT_REGEX env);
                              black_list = setting_or (GetCodeReviewSetting env (world st2) ''LINT_IGNORE_REGEX'')
                                             (DEFAULT_LINT_IGNORE_REGEX env);
                              st3 = cpp_loop env white_list black_list filenames st2
                          in Inr (cpplint_error_count env (lint st3),
                                  emit (CpplintErrors (cpplint_error_count env (lint st3))) st3)))))"

section \<open>The per-file checkers: \<open>do_py_lint\<close> and \<open>do_js_lint\<close>\<close>

text \<open>\<open>'F0401:' in [error[:6] for error in str(e).splitlines()]\<close>\<close>

definition has_F0401 :: "string \<Rightarrow> bool" where
  "has_F0401 msg = (''F0401:'' \<in> set (map (take 6) (splitlines msg)))"

text \<open>
  One round of the loop of \<open>do_py_lint\<close>, on the state, \<open>_has_import_error\<close> and
  \<open>error_count\<close>.
\<close>

definition py_lint_file ::
  "('w, 'c) env \<Rightarrow> string list \<Rightarrow> string \<Rightarrow> ('w, 'c) state \<times> bool \<times> int \<Rightarrow>
     ('w, 'c) state \<times> bool \<times> int" where
  "py_lint_file env pylint_cmd pyfile acc =
     (case acc of (st, has_import_error, error_count) \<Rightarrow>
        if path_exists env (world st) (cwd st) pyfile \<noteq> True
        then (emit (FileDoesNotExist pyfile) st, has_import_error, error_count)
        else (case path_split (abspath env (cwd st) pyfile) of (py_dir, py_name) \<Rightarrow>
          (let previous_cwd = cwd st;
               st1 = emit (PylintFile pyfile) (st\<lparr>cwd := py_dir\<rparr>)
           in case (case run_command env (pylint_cmd @ [py_name]) st1 of
                      (Inr raw, st2) \<Rightarrow>
                        (let output = strip raw
                         in if length output > 0
                            then (emit (CheckerOutput output) st2, has_import_error, error_count)
                            else (st2, has_import_error, error_count + 1))
                    | (Inl e, st2) \<Rightarrow>
                        (emit (ExceptionText e) st2,
                         (if \<not> has_import_error \<and> has_F0401 e then True else has_import_error),
                         error_count + 1)) of
                (st3, has_import_error3, error_count3) \<Rightarrow>
                  (st3\<lparr>cwd := previous_cwd\<rparr>, has_import_error3, error_count3))))"

fun py_loop ::
  "('w, 'c) env \<Rightarrow> string list \<Rightarrow> string list \<Rightarrow> ('w, 'c) state \<times> bool \<times> int \<Rightarrow>
     ('w, 'c) state \<times> bool \<times> int" where
  "py_loop env pylint_cmd [] acc = acc"
| "py_loop env pylint_cmd (pyfile # changeset) acc =
     py_loop env pylint_cmd changeset (py_lint_file env pylint_cmd pyfile acc)"

definition do_py_lint ::
  "('w, 'c) env \<Rightarrow> string list \<Rightarrow> ('w, 'c) state \<Rightarrow> int \<times> ('w, 'c) state" where
  "do_py_lint env changeset st =
     (let st0 = emit PyBanner st;
          pylint_cmd = (if startswith (platform env) ''win'' then [''pylint.bat'']
                        else [''pylint''])
      in case py_loop env pylint_cmd changeset (st0, False, 0) of
           (st1, has_import_error, error_count) \<Rightarrow>
             (let st2 = (if has_import_error then emit ImportHint st1 else st1)
              in (error_count, emit (PylintErrors error_count) st2)))"

text \<open>One round of the loop of \<open>do_js_lint\<close>, on the state and \<open>error_count\<close>.\<close>

definition js_lint_file ::
  "('w, 'c) env \<Rightarrow> string list \<Rightarrow> string \<Rightarrow> ('w, 'c) state \<times> int \<Rightarrow> ('w, 'c) state \<times> int" where
  "js_lint_file env jslint_cmd jsfile acc =
     (case acc of (st, error_count) \<Rightarrow>
        if path_exists env (world st) (cwd st) jsfile \<noteq> True
        then (emit (FileDoesNotExist jsfile) st, error_count)
        else (let args = [''--strict'', ''--nojsdoc'', ''--max_line_length'', ''100'',
                          ''--unix_mode'']
              in case path_split (abspath env (cwd st) jsfile) of (js_dir, js_name) \<Rightarrow>
          (let previous_cwd = cwd st;
               st1 = emit (JslintFile jsfile) (st\<lparr>cwd := js_dir\<rparr>);
               args1 = args @ [js_name]
           in case (case run_command env (jslint_cmd @ args1) st1 of
                      (Inr raw, st2) \<Rightarrow>
                        (let output = strip raw
                         in if length output > 0
                            then (emit (CheckerOutput output) st2, error_count)
                            else (st2, error_count + 1))
                    | (Inl e, st2) \<Rightarrow> (emit (ExceptionText e) st2, error_count + 1)) of
                (st3, error_count3) \<Rightarrow> (st3\<lparr>cwd := previous_cwd\<rparr>, error_count3))))"

fun js_loop ::
  "('w, 'c) env \<Rightarrow> string list \<Rightarrow> string list \<Rightarrow> ('w, 'c) state \<times> int \<Rightarrow>
     ('w, 'c) state \<times> int" where
  "js_loop env jslint_cmd [] acc = acc"
| "js_loop env jslint_cmd (jsfile # changeset) acc =
     js_loop env jslint_cmd changeset (js_lint_file env jslint_cmd jsfile acc)"

definition do_js_lint ::
  "('w, 'c) env \<Rightarrow> string list \<Rightarrow> ('w, 'c) state \<Rightarrow> int \<times> ('w, 'c) state" where
  "do_js_lint env changeset st =
     (let st0 = emit JsBanner st;
          jslint_cmd = (if startswith (platform env) ''win'' then [''gjslint.exe'']
                        else [''gjslint''])
      in case js_loop env jslint_cmd changeset (st0, 0) of
           (st1, error_count) \<Rightarrow> (error_count, emit (JslintErrors error_count) st1))"

section \<open>The rounds of the per-file checkers with every way out\<close>

text \<open>
  \<open>py_lint_file\<close> and \<open>js_lint_file\<close> follow a round of the loop on the paths on which
  control reaches the end of the loop body: every \<open>print\<close> succeeds, and the call of the
  checker returns or raises an \<open>Exception\<close>. A round can also be left early, by an
  exception that nothing in the script catches:
  \<^item> the process is interrupted while the checker runs, and the call raises
    \<open>KeyboardInterrupt\<close>, which is not an \<open>Exception\<close> and passes the handler;
  \<^item> a \<open>print\<close> fails with \<open>IOError\<close> (standard output is closed), outside the \<open>try\<close>
    or in the handler itself. Inside the \<open>try\<close> it is an \<open>Exception\<close> like the checker's
    and is handled.

  These faults of the surroundings are parameters: whether the call of a command is
  interrupted, and the message of the \<open>IOError\<close> with which a line cannot be written.
\<close>

record 'w faults =
  interrupted :: "'w \<Rightarrow> string \<Rightarrow> string list \<Rightarrow> bool"
  stdout_error :: "'w \<Rightarrow> event \<Rightarrow> string option"

definition no_faults :: "'w faults" where
  "no_faults = \<lparr> interrupted = (\<lambda>w dir cmd. False), stdout_error = (\<lambda>w e. None) \<rparr>"

text \<open>A \<open>print\<close> that may fail: the state with the line, or the message of the \<open>IOError\<close>.\<close>

definition try_print :: "'w faults \<Rightarrow> event \<Rightarrow> ('w, 'c) state \<Rightarrow> string + ('w, 'c) state" where
  "try_print faults e st =
     (case stdout_error faults (world st) e of
        None \<Rightarrow> Inr (emit e st)
      | Some msg \<Rightarrow> Inl msg)"

text \<open>
  A round of the loop of \<open>do_py_lint\<close>. \<open>Inl\<close>: the exception that leaves \<open>do_py_lint\<close>, and
  the state in which it does; \<open>Inr\<close>: the round is over and the loop goes on. The inner
  \<open>case\<close> is the \<open>try\<close> block: \<open>None\<close> when it ends normally, \<open>Some\<close> of \<open>str(e)\<close> when the
  handler is entered.
\<close>

definition py_lint_round ::
  "('w, 'c) env \<Rightarrow> 'w faults \<Rightarrow> string list \<Rightarrow> string \<Rightarrow> ('w, 'c) state \<times> bool \<times> int \<Rightarrow>
     (error \<times> ('w, 'c) state) + (('w, 'c) state \<times> bool \<times> int)" where
  "py_lint_round env faults pylint_cmd pyfile acc =
     (case acc of (st, has_import_error, error_count) \<Rightarrow>
        if path_exists env (world st) (cwd st) pyfile \<noteq> True
        then (case try_print faults (FileDoesNotExist pyfile) st of
                Inl msg \<Rightarrow> Inl (IOError msg, st)
              | Inr st1 \<Rightarrow> Inr (st1, has_import_error, error_count))
        else (case path_split (abspath env (cwd st) pyfile) of (py_dir, py_name) \<Rightarrow>
          (let previous_cwd = cwd st;
               st0 = st\<lparr>cwd := py_dir\<rparr>
           in case try_print faults (PylintFile pyfile) st0 of
                Inl msg \<Rightarrow> Inl (IOError msg, st0)
              | Inr st1 \<Rightarrow>
                  if interrupted faults (world st1) (cwd st1) (pylint_cmd @ [py_name])
                  then Inl (KeyboardInterrupt, st1)
                  else (case (case run_command env (pylint_cmd @ [py_name]) st1 of
                                (Inr raw, st2) \<Rightarrow>
                                  (let output = strip raw
                                   in if length output > 0
                                      then (case try_print faults (CheckerOutput output) st2 of
                                              Inl msg \<Rightarrow> (Some msg, st2, error_count)
                                            | Inr st3 \<Rightarrow> (None, st3, error_count))
                                      else (None, st2, error_count + 1))
                              | (Inl e, st2) \<Rightarrow> (Some e, st2, error_count)) of
                          (None, st3, error_count3) \<Rightarrow>
                            Inr (st3\<lparr>cwd := previous_cwd\<rparr>, has_import_error, error_count3)
                        | (Some e, st3, error_count3) \<Rightarrow>
                            (let has_import_error3 =
                                   (if \<not> has_import_error \<and> has_F0401 e then True
                                    else has_import_error)
                             in case try_print faults (ExceptionText e) st3 of
                                  Inl msg \<Rightarrow> Inl (IOError msg, st3)
                                | Inr st4 \<Rightarrow>
                                    Inr (st4\<lparr>cwd := previous_cwd\<rparr>, has_import_error3,
                                         error_count3 + 1))))))"

text \<open>A round of the loop of \<open>do_js_lint\<close>, in the same way.\<close>

definition js_lint_round ::
  "('w, 'c) env \<Rightarrow> 'w faults \<Rightarrow> string list \<Rightarrow> string \<Rightarrow> ('w, 'c) state \<times> int \<Rightarrow>
     (error \<times> ('w, 'c) state) + (('w, 'c) state \<times> int)" where
  "js_lint_round env faults jslint_cmd jsfile acc =
     (case acc of (st, error_count) \<Rightarrow>
        if path_exists env (world st) (cwd st) jsfile \<noteq> True
        then (case try_print faults (FileDoesNotExist jsfile) st of
                Inl msg \<Rightarrow> Inl (IOError msg, st)
              | Inr st1 \<Rightarrow> Inr (st1, error_count))
        else (let args = [''--strict'', ''--nojsdoc'', ''--max_line_length'', ''100'',
                          ''--unix_mode'']
              in case path_split (abspath env (cwd st) jsfile) of (js_dir, js_name) \<Rightarrow>
          (let previous_cwd = cwd st;
               st0 = st\<lparr>cwd := js_dir\<rparr>
           in case try_print faults (JslintFile jsfile) st0 of
                Inl msg \<Rightarrow> Inl (IOError msg, st0)
              | Inr st1 \<Rightarrow>
                  (let args1 = args @ [js_name]
                   in if interrupted faults (world st1) (cwd st1) (jslint_cmd @ args1)
                      then Inl (KeyboardInterrupt, st1)
                      else (case (case run_command env (jslint_cmd @ args1) st1 of
                                    (Inr raw, st2) \<Rightarrow>
                                      (let output = strip raw
                                       in if length output > 0
                                          then (case try_print faults (CheckerOutput output) st2 of
                                                  Inl msg \<Rightarrow> (Some msg, st2, error_count)
                                                | Inr st3 \<Rightarrow> (None, st3, error_count))
                                          else (None, st2, error_count + 1))
                                  | (Inl e, st2) \<Rightarrow> (Some e, st2, error_count)) of
                              (None, st3, error_count3) \<Rightarrow>
                                Inr (st3\<lparr>cwd := previous_cwd\<rparr>, error_count3)
                            | (Some e, st3, error_count3) \<Rightarrow>
                                (case try_print faults (ExceptionText e) st3 of
                                   Inl msg \<Rightarrow> Inl (IOError msg, st3)
                                 | Inr st4 \<Rightarrow>
                                     Inr (st4\<lparr>cwd := previous_cwd\<rparr>, error_count3 + 1)))))))"

section \<open>What the checker raises during a run\<close>

text \<open>
  The messages of the execution failures that \<open>GetCommandOutput\<close> raises, in order, when
  the checker is run on each file of the changeset that exists, from the directory of
  the file, starting in a world and a working directory. It is read off the
  collaborators alone, not off what \<open>do_py_lint\<close> prints or counts.
\<close>

fun py_checker_failures ::
  "('w, 'c) env \<Rightarrow> string list \<Rightarrow> string list \<Rightarrow> 'w \<Rightarrow> string \<Rightarrow> string list" where
  "py_checker_failures env pylint_cmd [] w dir = []"
| "py_checker_failures env pylint_cmd (pyfile # changeset) w dir =
     (if path_exists env w dir pyfile
      then (case path_split (abspath env dir pyfile) of (py_dir, py_name) \<Rightarrow>
              (case GetCommandOutput env w py_dir (pylint_cmd @ [py_name]) of
                 (Inl e, w1) \<Rightarrow> e # py_checker_failures env pylint_cmd changeset w1 dir
               | (Inr raw, w1) \<Rightarrow> py_checker_failures env pylint_cmd changeset w1 dir))
      else py_checker_failures env pylint_cmd changeset w dir)"

section \<open>Aggregation: \<open>do_lint\<close> and \<open>main\<close>\<close>

definition do_lint ::
  "('w, 'c) env \<Rightarrow> string option \<Rightarrow> string list \<Rightarrow> ('w, 'c) state \<Rightarrow>
     error + (int \<times> ('w, 'c) state)" where
  "do_lint env base args st =
     (case (case base of None \<Rightarrow> get_tracking_remote env st | Some b \<Rightarrow> Inr (b, st)) of
        Inl e \<Rightarrow> Inl e
      | Inr (base1, st0) \<Rightarrow>
          (case get_change_file_list env base1 st0 of
             Inl e \<Rightarrow> Inl e
           | Inr ((changes_py, changes_js, changes_others), st1) \<Rightarrow>
               (case do_cpp_lint env changes_others args st1 of
                  Inl e \<Rightarrow> Inl e
                | Inr (n_cpp, st2) \<Rightarrow>
                    (case do_py_lint env changes_py st2 of (n_py, st3) \<Rightarrow>
                       (case do_js_lint env changes_js st3 of (n_js, st4) \<Rightarrow>
                          (let total_erros = 0 + n_cpp + n_py + n_js
                           in Inr (total_erros, emit (TotalErrors total_erros) st4)))))))"

text \<open>
  \<open>main\<close> after the option parser has given \<open>options.base\<close> and \<open>args\<close>:
  \<open>sys.exit(do_lint(options.base, args))\<close>. The script ends with the exception returned
  here, \<open>SystemExit\<close> with the total unless an error came first.
\<close>

definition main ::
  "('w, 'c) env \<Rightarrow> string option \<Rightarrow> string list \<Rightarrow> ('w, 'c) state \<Rightarrow> error" where
  "main env base args st =
     (case do_lint env base args st of
        Inl e \<Rightarrow> e
      | Inr (total_erros, st1) \<Rightarrow> SystemExit total_erros)"

section \<open>An example run\<close>

text \<open>
  A small world for concrete runs: a repository on \<open>master\<close> with no tracking branch,
  whose last commit changed \<open>a.py\<close>, \<open>b.js\<close>, \<open>c.h\<close> and \<open>common/util.h\<close>. The argument
  is the output of \<open>git diff HEAD\<close>. \<open>pylint\<close> reports on \<open>a.py\<close>, prints an empty line
  for \<open>blank.py\<close> and fails on \<open>broken.py\<close>; \<open>gjslint\<close> reports on \<open>b.js\<close>; every other
  command fails. The style linter finds two issues in \<open>c.h\<close> and one in \<open>resource.h\<close>, and
  its original error function counts each diagnostic it is given.
\<close>

definition example_branches :: string where
  "example_branches = ''* master 1a2b3c4 Fix lint'' @ [CHR 0x0A] @
                      ''  remotes/origin/master 1a2b3c4 Fix lint'' @ [CHR 0x0A]"

definition example_diff :: string where
  "example_diff = ''a.py'' @ [CHR 0x0A] @ ''b.js'' @ [CHR 0x0A] @ ''c.h'' @ [CHR 0x0A] @
                  ''common/util.h'' @ [CHR 0x0A]"

definition example_command :: "string \<Rightarrow> string list \<Rightarrow> string + string" where
  "example_command diff_head cmd =
     (if cmd = [''git'', ''branch'', ''-vv'', ''-a'']
      then Inr example_branches
      else if cmd = [''git'', ''diff'', ''HEAD''] then Inr diff_head
      else if cmd = [''git'', ''diff'', ''--name-only'', ''HEAD~'']
      then Inr example_diff
      else if cmd = [''git'', ''diff'', ''--name-only'', ''HEAD''] then Inr ''''
      else if cmd = [''pylint'', ''a.py'']
      then Inr (''C:  1: Missing docstring'' @ [CHR 0x0A])
      else if cmd = [''pylint'', ''blank.py''] then Inr [CHR 0x0A]
      else if cmd = [''pylint'', ''broken.py'']
      then Inl (''pylint broken.py: ************* Module broken'' @ [CHR 0x0A] @
                ''F0401:  1: Unable to import utils'' @ [CHR 0x0A])
      else if cmd = [''gjslint'', ''--strict'', ''--nojsdoc'', ''--max_line_length'', ''100'',
                     ''--unix_mode'', ''b.js'']
      then Inr (''1 files checked, no errors found.'' @ [CHR 0x0A])
      else Inl ''command failed'')"

definition example_ProcessFile ::
  "(unit, int) handler \<Rightarrow> string \<Rightarrow> (unit, int) state \<Rightarrow> (unit, int) state" where
  "example_ProcessFile report fname st =
     (if fname = ''c.h''
      then report fname 0 ''build/header_guard'' 5 ''No #ifndef header guard found''
             (report fname 3 ''whitespace/tab'' 1 ''Tab found'' st)
      else if fname = ''resource.h''
      then report fname 7 ''whitespace/tab'' 1 ''Tab found'' st
      else st)"

definition example_env :: "string \<Rightarrow> (unit, int) env" where
  "example_env diff_head =
     \<lparr> GitExe = ''git'',
       GetCommandOutput = (\<lambda>w dir cmd. (example_command diff_head cmd, w)),
       path_exists = (\<lambda>w dir p. p \<in> set [''a.py'', ''b.js'', ''c.h'', ''blank.py'', ''broken.py'']),
       abspath = (\<lambda>dir p. dir @ ''/'' @ p),
       platform = ''linux2'',
       can_import = (\<lambda>w m. True),
       TryAddDepotToolsToPythonPath = (\<lambda>w. w),
       ParseArguments = (\<lambda>argv. Inr argv),
       cpplint_Error = (\<lambda>fname line cat conf msg st. st\<lparr>lint := lint st + 1\<rparr>),
       ProcessFile = example_ProcessFile,
       cpplint_error_count = (\<lambda>n. n),
       GetCodeReviewSetting = (\<lambda>w key. None),
       DEFAULT_LINT_REGEX = ''(.*[.]cpp|.*[.]cc|.*[.]h)'',
       DEFAULT_LINT_IGNORE_REGEX = ''$^'',
       re_match = (\<lambda>pattern s. pattern = ''(.*[.]cpp|.*[.]cc|.*[.]h)'' \<and>
                     (endswith s ''.cpp'' \<or> endswith s ''.cc'' \<or> endswith s ''.h'')) \<rparr>"

definition example_state :: "(unit, int) state" where
  "example_state = \<lparr> world = (), cwd = ''/repo'', out = [], lint = 0 \<rparr>"

text \<open>
  The same world with a listing of branches of one's choice, to run the base
  resolution on other repositories.
\<close>

definition listing_env :: "string \<Rightarrow> (unit, int) env" where
  "listing_env listing =
     (example_env '''')
       \<lparr> GetCommandOutput :=
           (\<lambda>w dir cmd. (if cmd = [''git'', ''branch'', ''-vv'', ''-a''] then Inr listing
                          else example_command '''' cmd, w)) \<rparr>"

text \<open>
  A topic branch with no upstream, whose last commit has a subject that starts with a
  bracket; and a branch whose last commit has an empty subject.
\<close>

definition bracket_subject_listing :: string where
  "bracket_subject_listing =
     ''  master 99aa99a Old'' @ [CHR 0x0A] @ ''* topic  1a2b3c4 [mas] tweak the build''"

definition empty_subject_listing :: string where
  "empty_subject_listing = ''* master 1a2b3c4 ''"

text \<open>
  The same world seen from files in a subdirectory: \<open>pylint\<close> fails on \<open>sub/broken.py\<close> as
  it does on \<open>broken.py\<close>, and the user interrupts the checkers of \<open>sub/slow.py\<close> and
  \<open>sub/slow.js\<close>. Standard output stays open.
\<close>

definition example_sub_env :: "(unit, int) env" where
  "example_sub_env =
     (example_env '''')
       \<lparr> path_exists :=
           (\<lambda>w dir p. p \<in> set [''sub/broken.py'', ''sub/slow.py'', ''sub/slow.js'']) \<rparr>"

definition example_faults :: "unit faults" where
  "example_faults =
     \<lparr> interrupted =
         (\<lambda>w dir cmd. cmd = [''pylint'', ''slow.py''] \<or>
                       cmd = [''gjslint'', ''--strict'', ''--nojsdoc'', ''--max_line_length'',
                              ''100'', ''--unix_mode'', ''slow.js'']),
       stdout_error = (\<lambda>w e. None) \<rparr>"

section \<open>Properties of the change enumeration\<close>

lemma run_command_eq:
  "GetCommandOutput env (world st) (cwd st) cmd = (r, w) \<Longrightarrow>
     run_command env cmd st = (r, st\<lparr>world := w\<rparr>)"
  by (simp add: run_command_def)

text \<open>
  The loop announces one skip for each path in a \<open>common\<close> directory and appends every
  other path, in order, to the list that its extension selects.
\<close>

lemma classify_loop_eq:
  "classify_loop changes (st, pyfiles, jsfiles, others) =
     (st\<lparr>out := out st @
          replicate (length (filter (\<lambda>c. common_regex_match (dirname c)) changes)) SkipCommonDir\<rparr>,
      pyfiles @ filter (\<lambda>c. \<not> common_regex_match (dirname c) \<and>
                            lower (snd (splitext c)) \<in> set PYTHON_EXTS) changes,
      jsfiles @ filter (\<lambda>c. \<not> common_regex_match (dirname c) \<and>
                            lower (snd (splitext c)) \<notin> set PYTHON_EXTS \<and>
                            lower (snd (splitext c)) \<in> set JS_EXTS) changes,
      others @ filter (\<lambda>c. \<not> common_regex_match (dirname c) \<and>
                           lower (snd (splitext c)) \<notin> set PYTHON_EXTS \<and>
                           lower (snd (splitext c)) \<notin> set JS_EXTS) changes)"
proof (induction changes arbitrary: st pyfiles jsfiles others)
  case Nil
  show ?case by simp
next
  case (Cons change changes)
  show ?case
    by (simp add: classify_change_def emit_def Cons.IH split: prod.splits
          flip: replicate_append_same)
qed

lemma mset_three_filters:
  "mset (filter (\<lambda>c. \<not> S c \<and> P c) xs) + mset (filter (\<lambda>c. \<not> S c \<and> \<not> P c \<and> J c) xs) +
   mset (filter (\<lambda>c. \<not> S c \<and> \<not> P c \<and> \<not> J c) xs) = mset (filter (\<lambda>c. \<not> S c) xs)"
  by (induction xs) auto

lemma example_diff_command:
  "GetCommandOutput (example_env '''') (world example_state) (cwd example_state)
     [GitExe (example_env ''''), ''diff'', ''--name-only'', ''HEAD~''] = (Inr example_diff, ())"
  by (simp add: example_env_def example_command_def example_state_def)

text \<open>
  C1. Whenever the diff command returns, \<open>get_change_file_list\<close> returns three lists that
  are pairwise disjoint and that together hold, with the same multiplicities, exactly
  the changed paths that are not in a \<open>common\<close> directory; so no path occurs more often
  than in the changed-file list, and a surviving path lies in one list only.
\<close>

theorem get_change_file_list_partition:
  assumes "GetCommandOutput env (world st) (cwd st) [GitExe env, ''diff'', ''--name-only'', base]
             = (Inr output, w)"
  shows "\<exists>pyfiles jsfiles others st'.
           get_change_file_list env base st = Inr ((pyfiles, jsfiles, others), st') \<and>
           set pyfiles \<inter> set jsfiles = {} \<and> set pyfiles \<inter> set others = {} \<and>
           set jsfiles \<inter> set others = {} \<and>
           mset pyfiles + mset jsfiles + mset others =
             mset (filter (\<lambda>c. \<not> common_regex_match (dirname c)) (changes_of output)) \<and>
           mset pyfiles + mset jsfiles + mset others \<subseteq># mset (changes_of output)"
proof -
  let ?S = "\<lambda>c. common_regex_match (dirname c)"
  let ?P = "\<lambda>c. lower (snd (splitext c)) \<in> set PYTHON_EXTS"
  let ?J = "\<lambda>c. lower (snd (splitext c)) \<in> set JS_EXTS"
  let ?cs = "changes_of output"
  let ?py = "filter (\<lambda>c. \<not> ?S c \<and> ?P c) ?cs"
  let ?js = "filter (\<lambda>c. \<not> ?S c \<and> \<not> ?P c \<and> ?J c) ?cs"
  let ?ot = "filter (\<lambda>c. \<not> ?S c \<and> \<not> ?P c \<and> \<not> ?J c) ?cs"
  have res: "get_change_file_list env base st =
      Inr ((?py, ?js, ?ot),
           st\<lparr>world := w, out := out st @ replicate (length (filter ?S ?cs)) SkipCommonDir\<rparr>)"
    by (simp add: get_change_file_list_def run_command_eq [OF assms] classify_loop_eq)
  have un: "mset ?py + mset ?js + mset ?ot = mset (filter (\<lambda>c. \<not> ?S c) ?cs)"
    by (rule mset_three_filters)
  have sub: "mset (filter (\<lambda>c. \<not> ?S c) ?cs) \<subseteq># mset ?cs"
    by simp
  have d1: "set ?py \<inter> set ?js = {}" by auto
  have d2: "set ?py \<inter> set ?ot = {}" by auto
  have d3: "set ?js \<inter> set ?ot = {}" by auto
  from res un sub d1 d2 d3 show ?thesis
    by (metis (no_types, lifting))
qed

theorem get_change_file_list_partition_witness:
  "GetCommandOutput (example_env '''') (world example_state) (cwd example_state)
     [GitExe (example_env ''''), ''diff'', ''--name-only'', ''HEAD~''] = (Inr example_diff, ()) \<and>
   (\<exists>pyfiles jsfiles others st'.
      get_change_file_list (example_env '''') ''HEAD~'' example_state
        = Inr ((pyfiles, jsfiles, others), st') \<and>
      set pyfiles \<inter> set jsfiles = {} \<and> set pyfiles \<inter> set others = {} \<and>
      set jsfiles \<inter> set others = {} \<and>
      mset pyfiles + mset jsfiles + mset others =
        mset (filter (\<lambda>c. \<not> common_regex_match (dirname c)) (changes_of example_diff)) \<and>
      mset pyfiles + mset jsfiles + mset others \<subseteq># mset (changes_of example_diff))"
  using get_change_file_list_partition [OF example_diff_command] example_diff_command
  by (rule_tac conjI)

text \<open>
  C4. Whenever the diff command returns, no path whose directory name matches the
  \<open>common\<close> pattern is in any of the three lists returned, and the lines printed by
  \<open>get_change_file_list\<close> are one skip announcement for each such path of the
  changed-file list.
\<close>

theorem common_paths_skipped:
  assumes "GetCommandOutput env (world st) (cwd st) [GitExe env, ''diff'', ''--name-only'', base]
             = (Inr output, w)"
  shows "\<exists>pyfiles jsfiles others st'.
           get_change_file_list env base st = Inr ((pyfiles, jsfiles, others), st') \<and>
           (\<forall>change. common_regex_match (dirname change) \<longrightarrow>
                change \<notin> set pyfiles \<union> set jsfiles \<union> set others) \<and>
           out st' = out st @
             replicate (length (filter (\<lambda>c. common_regex_match (dirname c)) (changes_of output)))
               SkipCommonDir"
  by (simp add: get_change_file_list_def run_command_eq [OF assms] classify_loop_eq)

theorem common_paths_skipped_witness:
  "GetCommandOutput (example_env '''') (world example_state) (cwd example_state)
     [GitExe (example_env ''''), ''diff'', ''--name-only'', ''HEAD~''] = (Inr example_diff, ()) \<and>
   common_regex_match (dirname ''common/util.h'') \<and>
   ''common/util.h'' \<in> set (changes_of example_diff) \<and>
   (\<exists>pyfiles jsfiles others st'.
      get_change_file_list (example_env '''') ''HEAD~'' example_state
        = Inr ((pyfiles, jsfiles, others), st') \<and>
      ''common/util.h'' \<notin> set pyfiles \<union> set jsfiles \<union> set others \<and>
      out st' = out example_state @ [SkipCommonDir])"
proof -
  have c: "common_regex_match (dirname ''common/util.h'')"
    by (simp add: common_regex_match_def dirname_def path_split_def rfind_def rstrip_slash_def
          startswith_def)
  have cs: "changes_of example_diff = [''a.py'', ''b.js'', ''c.h'', ''common/util.h'']"
    by (simp add: changes_of_def example_diff_def strip_def is_space_def)
  have n: "length (filter (\<lambda>c. common_regex_match (dirname c)) (changes_of example_diff)) = 1"
    by (simp add: cs common_regex_match_def dirname_def path_split_def rfind_def rstrip_slash_def
          startswith_def)
  from common_paths_skipped [OF example_diff_command]
  obtain pyfiles jsfiles others st' where
    r: "get_change_file_list (example_env '''') ''HEAD~'' example_state
          = Inr ((pyfiles, jsfiles, others), st')"
    and a: "\<forall>change. common_regex_match (dirname change) \<longrightarrow>
                change \<notin> set pyfiles \<union> set jsfiles \<union> set others"
    and o: "out st' = out example_state @
             replicate (length (filter (\<lambda>c. common_regex_match (dirname c)) (changes_of example_diff)))
               SkipCommonDir"
    by blast
  from a c have "''common/util.h'' \<notin> set pyfiles \<union> set jsfiles \<union> set others" by blast
  moreover from o n have "out st' = out example_state @ [SkipCommonDir]" by simp
  ultimately show ?thesis using r c cs example_diff_command by auto
qed

lemma example_empty_diff_command:
  "GetCommandOutput (example_env ''x'') (world example_state) (cwd example_state)
     [GitExe (example_env ''x''), ''diff'', ''--name-only'', ''HEAD''] = (Inr '''', ())"
  by (simp add: example_env_def example_command_def example_state_def)

text \<open>
  C10. When the diff command returns the empty string, \<open>get_change_file_list\<close> returns no
  Python file, no JavaScript file, and the one-element list of the empty path as the
  other files.
\<close>

theorem empty_diff_gives_empty_path:
  assumes "GetCommandOutput env (world st) (cwd st) [GitExe env, ''diff'', ''--name-only'', base]
             = (Inr '''', w)"
  shows "get_change_file_list env base st = Inr (([], [], ['''']), st\<lparr>world := w\<rparr>)"
  by (simp add: get_change_file_list_def run_command_eq [OF assms] changes_of_def strip_def
        classify_change_def splitext_def rfind_def dirname_def path_split_def
        common_regex_match_def startswith_def lower_def PYTHON_EXTS_def JS_EXTS_def)

theorem empty_diff_gives_empty_path_witness:
  "GetCommandOutput (example_env ''x'') (world example_state) (cwd example_state)
     [GitExe (example_env ''x''), ''diff'', ''--name-only'', ''HEAD''] = (Inr '''', ()) \<and>
   get_change_file_list (example_env ''x'') ''HEAD'' example_state
     = Inr (([], [], ['''']), example_state)"
  using empty_diff_gives_empty_path [OF example_empty_diff_command] example_empty_diff_command
  by (simp add: example_state_def)

text \<open>
  So in a run on a dirty repository whose diff is empty, \<open>do_cpp_lint\<close> is given the
  empty path: it does not print that the changeset is empty, and passes the path on.
\<close>

lemma example_empty_run:
  "do_lint (example_env ''x'') None [] example_state =
     Inr (0, example_state\<lparr>out :=
               [BaseNotSpecified ''HEAD'', CppBanner, SkippingFile '''', CpplintErrors 0,
                PyBanner, PylintErrors 0, JsBanner, JslintErrors 0, TotalErrors 0]\<rparr>)"
  by code_simp

section \<open>Properties of the base resolution\<close>

text \<open>
  The loop passes over the lines before the first one that starts with a star and
  decides on that line.
\<close>

lemma active_remote_at:
  assumes "\<forall>b \<in> set pre. \<not> startswith b ''*''" and "startswith branch ''*''"
  shows "active_remote branches (pre @ branch # rest) =
           (case branch_detail branch of
              Inl e \<Rightarrow> Inl e
            | Inr detail \<Rightarrow>
                Inr (Some (if startswith detail ''['' then bracket_remote branches detail
                           else '''')))"
  using assms by (induction pre) simp_all

lemma repo_is_dirty_eq:
  assumes "GetCommandOutput env (world st) (cwd st) [GitExe env, ''diff'', ''HEAD''] = (Inr d, w)"
  shows "repo_is_dirty env st = Inr (strip d \<noteq> '''', st\<lparr>world := w\<rparr>)"
  by (simp add: repo_is_dirty_def run_command_eq [OF assms])

lemma example_listing:
  "GetCommandOutput (example_env d) (world example_state) (cwd example_state)
     [GitExe (example_env d), ''branch'', ''-vv'', ''-a''] = (Inr example_branches, ())"
  by (simp add: example_env_def example_command_def example_state_def)

lemma example_lines:
  "split_chr (CHR 0x0A) example_branches =
     [] @ ''* master 1a2b3c4 Fix lint'' # [''  remotes/origin/master 1a2b3c4 Fix lint'', '''']"
  by (simp add: example_branches_def)

lemma example_detail: "branch_detail ''* master 1a2b3c4 Fix lint'' = Inr ''Fix lint''"
  by code_simp

lemma example_diff_head:
  "GetCommandOutput (example_env d) (() :: unit) (cwd example_state) [GitExe (example_env d), ''diff'', ''HEAD'']
     = (Inr d, ())"
  by (simp add: example_env_def example_command_def example_state_def)

text \<open>
  On a listing whose first line with a star parses, and has after the hash either no
  bracket or a bracket whose name no line of the listing starts with (nor with
  \<open>remotes/\<close> before it), \<open>get_tracking_remote\<close> returns \<open>HEAD\<close> if \<open>git diff HEAD\<close> prints
  anything but whitespace, and \<open>HEAD~\<close> otherwise, and announces that base.
\<close>

lemma unbracketed_base:
  assumes listing: "GetCommandOutput env (world st) (cwd st) [GitExe env, ''branch'', ''-vv'', ''-a'']
                      = (Inr output, w1)"
    and lines: "split_chr (CHR 0x0A) output = pre @ branch # rest"
    and pre: "\<forall>b \<in> set pre. \<not> startswith b ''*''"
    and active: "startswith branch ''*''"
    and detail: "branch_detail branch = Inr detail"
    and untracked: "\<not> startswith detail ''['' \<or>
                    bracket_remote (split_chr (CHR 0x0A) output) detail = ''''"
    and diff: "GetCommandOutput env w1 (cwd st) [GitExe env, ''diff'', ''HEAD''] = (Inr diff_head, w2)"
  shows "get_tracking_remote env st =
           Inr (if strip diff_head \<noteq> '''' then ''HEAD'' else ''HEAD~'',
                emit (BaseNotSpecified (if strip diff_head \<noteq> '''' then ''HEAD'' else ''HEAD~''))
                  (st\<lparr>world := w2\<rparr>))"
proof -
  let ?branches = "split_chr (CHR 0x0A) output"
  have "active_remote ?branches (pre @ branch # rest) =
          Inr (Some (if startswith detail ''['' then bracket_remote ?branches detail else ''''))"
    using active_remote_at [OF pre active, of ?branches rest] detail by simp
  with untracked have loop: "active_remote ?branches ?branches = Inr (Some '''')"
    by (auto simp add: lines)
  have dirty: "repo_is_dirty env (st\<lparr>world := w1\<rparr>) =
                 Inr (strip diff_head \<noteq> '''', st\<lparr>world := w2\<rparr>)"
    using repo_is_dirty_eq [of env "st\<lparr>world := w1\<rparr>" diff_head w2] diff by simp
  show ?thesis
    by (simp add: get_tracking_remote_def run_command_eq [OF listing] Let_def loop dirty)
qed

lemma example_unbracketed_base:
  "GetCommandOutput (example_env '''') (world example_state) (cwd example_state)
     [GitExe (example_env ''''), ''branch'', ''-vv'', ''-a''] = (Inr example_branches, ()) \<and>
   split_chr (CHR 0x0A) example_branches =
     [] @ ''* master 1a2b3c4 Fix lint'' # [''  remotes/origin/master 1a2b3c4 Fix lint'', ''''] \<and>
   startswith ''* master 1a2b3c4 Fix lint'' ''*'' \<and>
   branch_detail ''* master 1a2b3c4 Fix lint'' = Inr ''Fix lint'' \<and>
   \<not> startswith ''Fix lint'' ''['' \<and>
   get_tracking_remote (example_env '''') example_state
     = Inr (''HEAD~'', emit (BaseNotSpecified ''HEAD~'') example_state) \<and>
   get_tracking_remote (example_env ''x'') example_state
     = Inr (''HEAD'', emit (BaseNotSpecified ''HEAD'') example_state)"
proof -
  have pre: "\<forall>b \<in> set []. \<not> startswith b ''*''" by simp
  have active: "startswith ''* master 1a2b3c4 Fix lint'' ''*''" by (simp add: startswith_def)
  have nb: "\<not> startswith ''Fix lint'' ''[''" by (simp add: startswith_def)
  then have untracked: "\<not> startswith ''Fix lint'' ''['' \<or>
      bracket_remote (split_chr (CHR 0x0A) example_branches) ''Fix lint'' = ''''"
    by simp
  have clean: "get_tracking_remote (example_env '''') example_state
     = Inr (''HEAD~'', emit (BaseNotSpecified ''HEAD~'') example_state)"
    using unbracketed_base [OF example_listing example_lines pre active
        example_detail untracked example_diff_head, of "[]"]
    by (simp add: strip_def example_state_def)
  have dirty: "get_tracking_remote (example_env ''x'') example_state
     = Inr (''HEAD'', emit (BaseNotSpecified ''HEAD'') example_state)"
    using unbracketed_base [OF example_listing example_lines pre active
        example_detail untracked example_diff_head, of "''x''"]
    by (simp add: strip_def is_space_def example_state_def)
  from example_listing [of "''''"] example_lines active example_detail nb clean dirty
  show ?thesis by simp
qed

text \<open>
  The other outcomes of the loop, on concrete listings: a bracket that no line confirms
  gives the empty name, a confirmed one is the base, a listing without a star leaves
  \<open>remote\<close> unassigned, and a line with a name only cannot be indexed.
\<close>

lemma example_unverified_bracket:
  "active_remote [''* topic 1a2b3c4 [origin/gone: ahead 1] Fix lint'',
                  ''  remotes/origin/master 1a2b3c4 Fix lint'']
                 [''* topic 1a2b3c4 [origin/gone: ahead 1] Fix lint'',
                  ''  remotes/origin/master 1a2b3c4 Fix lint''] = Inr (Some '''') \<and>
   active_remote [''* topic 1a2b3c4 [origin/master: ahead 1] Fix lint'',
                  ''  remotes/origin/master 1a2b3c4 Fix lint'']
                 [''* topic 1a2b3c4 [origin/master: ahead 1] Fix lint'',
                  ''  remotes/origin/master 1a2b3c4 Fix lint''] = Inr (Some ''origin/master'') \<and>
   active_remote [''  master 1a2b3c4 Fix lint''] [''  master 1a2b3c4 Fix lint''] = Inr None \<and>
   active_remote [''* master''] [''* master''] = Inl IndexError"
  by code_simp

text \<open>
  C6. Without an explicit base and without a tracking reference of the active branch,
  the base should be \<open>HEAD\<close> or \<open>HEAD~\<close>, as the help text of \<open>main\<close> says too. The
  source's comment has the bracket checked against the real branches because a commit
  subject may start with a bracket; but the check is \<open>startswith\<close> on the lines of the
  listing. For the topic branch with no upstream whose subject is \<open>[mas] tweak the build\<close>
  beside a branch \<open>master\<close>, the line \<open>master 99aa99a Old\<close> starts with \<open>mas\<close>, and the base
  returned is \<open>mas\<close>, neither \<open>HEAD\<close> nor \<open>HEAD~\<close>. For the branch whose last commit has an
  empty subject, nothing follows the hash and the second index raises \<open>IndexError\<close>.
\<close>

theorem bracket_subject_taken_for_upstream:
  "split_chr (CHR 0x0A) bracket_subject_listing =
     [''  master 99aa99a Old'', ''* topic  1a2b3c4 [mas] tweak the build''] \<and>
   get_tracking_remote (listing_env bracket_subject_listing) example_state
     = Inr (''mas'', emit (BaseNotSpecified ''mas'') example_state) \<and>
   get_tracking_remote (listing_env empty_subject_listing) example_state = Inl IndexError"
  by code_simp

section \<open>Properties of the installed error function\<close>

text \<open>
  The first branch of \<open>MyError\<close> tests the file name only: for a file whose name ends in
  \<open>resource.h\<close>, a diagnostic of any category is written as ignored and is not passed on.
\<close>

lemma MyError_resource_h:
  "endswith filename ''resource.h'' \<Longrightarrow>
     MyError origin_error filename linenum category confidence message st =
       emit (IgnoredError filename linenum message category confidence) st"
  by (simp add: MyError_def)

text \<open>
  C5. For the generated resource header, the source's comment announces that the
  missing header guard is skipped, and C5 says that every other category is still
  recorded. Evaluated on \<open>resource.h\<close> with a \<open>whitespace/tab\<close> diagnostic, \<open>MyError\<close>
  logs the diagnostic as ignored where the original error function would have counted
  it, and \<open>do_cpp_lint\<close> over that file returns zero.
\<close>

theorem resource_header_ignores_every_category:
  "MyError (cpplint_Error (example_env '''')) ''resource.h'' 7 ''whitespace/tab'' 1 ''Tab found''
     example_state
     = emit (IgnoredError ''resource.h'' 7 ''Tab found'' ''whitespace/tab'' 1) example_state \<and>
   cpplint_Error (example_env '''') ''resource.h'' 7 ''whitespace/tab'' 1 ''Tab found''
     example_state = example_state\<lparr>lint := 1\<rparr> \<and>
   do_cpp_lint (example_env '''') [''resource.h''] [] example_state
     = Inr (0, example_state\<lparr>out :=
                 [CppBanner, CppFile ''resource.h'',
                  IgnoredError ''resource.h'' 7 ''Tab found'' ''whitespace/tab'' 1,
                  CpplintErrors 0]\<rparr>)"
  by code_simp

section \<open>Properties of the per-file checkers\<close>

lemma py_lint_file_cwd:
  "cwd (fst (py_lint_file env pylint_cmd pyfile acc)) = cwd (fst acc)"
  by (simp add: py_lint_file_def run_command_def emit_def Let_def
        split: prod.splits sum.splits)

lemma js_lint_file_cwd:
  "cwd (fst (js_lint_file env jslint_cmd jsfile acc)) = cwd (fst acc)"
  by (simp add: js_lint_file_def run_command_def emit_def Let_def
        split: prod.splits sum.splits)

lemma py_loop_cwd:
  "cwd (fst (py_loop env pylint_cmd changeset acc)) = cwd (fst acc)"
  by (induction changeset arbitrary: acc) (simp_all add: py_lint_file_cwd)

lemma js_loop_cwd:
  "cwd (fst (js_loop env jslint_cmd changeset acc)) = cwd (fst acc)"
  by (induction changeset arbitrary: acc) (simp_all add: js_lint_file_cwd)

lemma do_py_lint_cwd: "cwd (snd (do_py_lint env changeset st)) = cwd st"
proof -
  define pylint_cmd where
    "pylint_cmd = (if startswith (platform env) ''win'' then [''pylint.bat''] else [''pylint''])"
  obtain st1 flag n where loop:
    "py_loop env pylint_cmd changeset (emit PyBanner st, False, 0) = (st1, flag, n)"
    by (cases "py_loop env pylint_cmd changeset (emit PyBanner st, False, 0)") auto
  from py_loop_cwd [of env pylint_cmd changeset "(emit PyBanner st, False, 0)"] loop
  have "cwd st1 = cwd st" by (simp add: emit_def)
  then show ?thesis
    using loop by (simp add: do_py_lint_def Let_def emit_def flip: pylint_cmd_def)
qed

lemma do_js_lint_cwd: "cwd (snd (do_js_lint env changeset st)) = cwd st"
proof -
  define jslint_cmd where
    "jslint_cmd = (if startswith (platform env) ''win'' then [''gjslint.exe''] else [''gjslint''])"
  obtain st1 n where loop: "js_loop env jslint_cmd changeset (emit JsBanner st, 0) = (st1, n)"
    by (cases "js_loop env jslint_cmd changeset (emit JsBanner st, 0)") auto
  from js_loop_cwd [of env jslint_cmd changeset "(emit JsBanner st, 0)"] loop
  have "cwd st1 = cwd st" by (simp add: emit_def)
  then show ?thesis
    using loop by (simp add: do_js_lint_def Let_def emit_def flip: jslint_cmd_def)
qed

text \<open>
  Without faults, a round with every way out is the round of \<open>py_lint_file\<close> or
  \<open>js_lint_file\<close>, and it returns.
\<close>

lemma py_lint_round_no_faults:
  "py_lint_round env no_faults pylint_cmd pyfile acc = Inr (py_lint_file env pylint_cmd pyfile acc)"
  by (simp add: py_lint_round_def py_lint_file_def try_print_def no_faults_def Let_def
        split: prod.splits sum.splits)

lemma js_lint_round_no_faults:
  "js_lint_round env no_faults jslint_cmd jsfile acc = Inr (js_lint_file env jslint_cmd jsfile acc)"
  by (simp add: js_lint_round_def js_lint_file_def try_print_def no_faults_def Let_def
        split: prod.splits sum.splits)

lemma py_lint_round_cwd:
  "py_lint_round env faults pylint_cmd pyfile acc = Inr res \<Longrightarrow> cwd (fst res) = cwd (fst acc)"
  by (auto simp add: py_lint_round_def try_print_def run_command_def emit_def Let_def
        split: prod.splits sum.splits option.splits if_splits)

lemma js_lint_round_cwd:
  "js_lint_round env faults jslint_cmd jsfile acc = Inr res \<Longrightarrow> cwd (fst res) = cwd (fst acc)"
  by (auto simp add: js_lint_round_def try_print_def run_command_def emit_def Let_def
        split: prod.splits sum.splits option.splits if_splits)

text \<open>
  The ways through a round for a file that exists: when the checker raises an
  \<open>Exception\<close> and the lines can be written, the handler prints it, counts it, and the
  directory is restored; when the call is interrupted, or the line before the call or
  the line of the handler cannot be written, the exception leaves the function from
  the directory of the file.
\<close>

lemma py_lint_round_checker_raises:
  assumes "path_exists env (world st) (cwd st) pyfile"
    and "path_split (abspath env (cwd st) pyfile) = (py_dir, py_name)"
    and "stdout_error faults (world st) (PylintFile pyfile) = None"
    and "\<not> interrupted faults (world st) py_dir (pylint_cmd @ [py_name])"
    and "GetCommandOutput env (world st) py_dir (pylint_cmd @ [py_name]) = (Inl e, w)"
    and "stdout_error faults w (ExceptionText e) = None"
  shows "py_lint_round env faults pylint_cmd pyfile (st, flag, n) =
           Inr (st\<lparr>world := w, out := out st @ [PylintFile pyfile, ExceptionText e]\<rparr>,
                flag \<or> has_F0401 e, n + 1)"
  using assms
  by (auto simp add: py_lint_round_def try_print_def run_command_def emit_def Let_def)

lemma py_lint_round_interrupted:
  assumes "path_exists env (world st) (cwd st) pyfile"
    and "path_split (abspath env (cwd st) pyfile) = (py_dir, py_name)"
    and "stdout_error faults (world st) (PylintFile pyfile) = None"
    and "interrupted faults (world st) py_dir (pylint_cmd @ [py_name])"
  shows "py_lint_round env faults pylint_cmd pyfile (st, flag, n) =
           Inl (KeyboardInterrupt, st\<lparr>cwd := py_dir, out := out st @ [PylintFile pyfile]\<rparr>)"
  using assms
  by (auto simp add: py_lint_round_def try_print_def run_command_def emit_def Let_def)

lemma py_lint_round_first_print_fails:
  assumes "path_exists env (world st) (cwd st) pyfile"
    and "path_split (abspath env (cwd st) pyfile) = (py_dir, py_name)"
    and "stdout_error faults (world st) (PylintFile pyfile) = Some msg"
  shows "py_lint_round env faults pylint_cmd pyfile (st, flag, n) =
           Inl (IOError msg, st\<lparr>cwd := py_dir\<rparr>)"
  using assms
  by (auto simp add: py_lint_round_def try_print_def run_command_def emit_def Let_def)

lemma py_lint_round_handler_print_fails:
  assumes "path_exists env (world st) (cwd st) pyfile"
    and "path_split (abspath env (cwd st) pyfile) = (py_dir, py_name)"
    and "stdout_error faults (world st) (PylintFile pyfile) = None"
    and "\<not> interrupted faults (world st) py_dir (pylint_cmd @ [py_name])"
    and "GetCommandOutput env (world st) py_dir (pylint_cmd @ [py_name]) = (Inl e, w)"
    and "stdout_error faults w (ExceptionText e) = Some msg"
  shows "py_lint_round env faults pylint_cmd pyfile (st, flag, n) =
           Inl (IOError msg, st\<lparr>cwd := py_dir, world := w, out := out st @ [PylintFile pyfile]\<rparr>)"
  using assms
  by (auto simp add: py_lint_round_def try_print_def run_command_def emit_def Let_def)

lemma example_sub_broken_round:
  "py_lint_round example_sub_env example_faults [''pylint''] ''sub/broken.py'' (example_state, False, 0)
     = Inr (example_state\<lparr>out :=
              [PylintFile ''sub/broken.py'',
               ExceptionText (''pylint broken.py: ************* Module broken'' @ [CHR 0x0A] @
                              ''F0401:  1: Unable to import utils'' @ [CHR 0x0A])]\<rparr>, True, 1)"
  by code_simp

lemma example_sub_broken_js_round:
  "js_lint_round example_sub_env example_faults [''gjslint''] ''sub/broken.py'' (example_state, 0)
     = Inr (example_state\<lparr>out :=
              [JslintFile ''sub/broken.py'', ExceptionText ''command failed'']\<rparr>, 1)"
  by code_simp

text \<open>
  C3, as amended. Whenever a round of the loop of \<open>do_py_lint\<close> or of \<open>do_js_lint\<close>
  returns to the loop, the working directory is the one from before the round: when
  the file is missing, when the checker returns, and when the checker raises an
  \<open>Exception\<close>, which the handler catches.
\<close>

theorem cwd_restored_when_round_returns:
  "(py_lint_round env faults pylint_cmd pyfile (st, has_import_error, error_count)
      = Inr (st1, has_import_error1, error_count1) \<longrightarrow> cwd st1 = cwd st) \<and>
   (js_lint_round env faults jslint_cmd jsfile (st, error_count) = Inr (st2, error_count2)
      \<longrightarrow> cwd st2 = cwd st)"
  using py_lint_round_cwd [of env faults pylint_cmd pyfile "(st, has_import_error, error_count)"
          "(st1, has_import_error1, error_count1)"]
        js_lint_round_cwd [of env faults jslint_cmd jsfile "(st, error_count)" "(st2, error_count2)"]
  by simp

theorem cwd_restored_when_round_returns_witness:
  "py_lint_round example_sub_env example_faults [''pylint''] ''sub/broken.py'' (example_state, False, 0)
     = Inr (example_state\<lparr>out :=
              [PylintFile ''sub/broken.py'',
               ExceptionText (''pylint broken.py: ************* Module broken'' @ [CHR 0x0A] @
                              ''F0401:  1: Unable to import utils'' @ [CHR 0x0A])]\<rparr>, True, 1) \<and>
   js_lint_round example_sub_env example_faults [''gjslint''] ''sub/broken.py'' (example_state, 0)
     = Inr (example_state\<lparr>out :=
              [JslintFile ''sub/broken.py'', ExceptionText ''command failed'']\<rparr>, 1) \<and>
   cwd (example_state\<lparr>out :=
              [PylintFile ''sub/broken.py'',
               ExceptionText (''pylint broken.py: ************* Module broken'' @ [CHR 0x0A] @
                              ''F0401:  1: Unable to import utils'' @ [CHR 0x0A])]\<rparr>)
     = cwd example_state \<and>
   cwd (example_state\<lparr>out :=
              [JslintFile ''sub/broken.py'', ExceptionText ''command failed'']\<rparr>)
     = cwd example_state"
  using cwd_restored_when_round_returns
          [of example_sub_env example_faults "[''pylint'']" "''sub/broken.py''" example_state False 0
              _ True 1 "[''gjslint'']" "''sub/broken.py''" _ 1]
        example_sub_broken_round example_sub_broken_js_round
  by blast

text \<open>
  C3 as stated fails on the exit paths that do not reach the last statement of the loop
  body: the restoring \<open>os.chdir(previous_cwd)\<close> follows the \<open>try\<close> statement and is not in
  a \<open>finally\<close> clause. When the user interrupts the checker of \<open>sub/slow.py\<close> or
  \<open>sub/slow.js\<close>, \<open>KeyboardInterrupt\<close> leaves the function with the working directory
  \<open>/repo/sub\<close>, where it was \<open>/repo\<close> before the round.
\<close>

theorem interrupted_round_leaves_directory_changed:
  "cwd example_state = ''/repo'' \<and>
   py_lint_round example_sub_env example_faults [''pylint''] ''sub/slow.py'' (example_state, False, 0)
     = Inl (KeyboardInterrupt,
            example_state\<lparr>cwd := ''/repo/sub'', out := [PylintFile ''sub/slow.py'']\<rparr>) \<and>
   js_lint_round example_sub_env example_faults [''gjslint''] ''sub/slow.js'' (example_state, 0)
     = Inl (KeyboardInterrupt,
            example_state\<lparr>cwd := ''/repo/sub'', out := [JslintFile ''sub/slow.js'']\<rparr>)"
  by code_simp

text \<open>
  C9. For a path that does not exist, a round of either loop prints the skip line and
  changes nothing else: the error count (and the import flag) are as before, and the
  loop goes on with the remaining files.
\<close>

theorem missing_file_skipped:
  assumes "\<not> path_exists env (world st) (cwd st) f"
  shows "py_lint_file env pylint_cmd f (st, has_import_error, error_count)
           = (emit (FileDoesNotExist f) st, has_import_error, error_count) \<and>
         py_loop env pylint_cmd (f # changeset) (st, has_import_error, error_count)
           = py_loop env pylint_cmd changeset
               (emit (FileDoesNotExist f) st, has_import_error, error_count) \<and>
         js_lint_file env jslint_cmd f (st, error_count)
           = (emit (FileDoesNotExist f) st, error_count) \<and>
         js_loop env jslint_cmd (f # changeset) (st, error_count)
           = js_loop env jslint_cmd changeset (emit (FileDoesNotExist f) st, error_count)"
  using assms by (simp add: py_lint_file_def js_lint_file_def)

theorem missing_file_skipped_witness:
  "\<not> path_exists (example_env '''') (world example_state) (cwd example_state) ''gone.py'' \<and>
   py_lint_file (example_env '''') [''pylint''] ''gone.py'' (example_state, False, 0)
     = (emit (FileDoesNotExist ''gone.py'') example_state, False, 0) \<and>
   py_loop (example_env '''') [''pylint''] [''gone.py''] (example_state, False, 0)
     = (emit (FileDoesNotExist ''gone.py'') example_state, False, 0) \<and>
   js_lint_file (example_env '''') [''gjslint''] ''gone.py'' (example_state, 0)
     = (emit (FileDoesNotExist ''gone.py'') example_state, 0) \<and>
   js_loop (example_env '''') [''gjslint''] [''gone.py''] (example_state, 0)
     = (emit (FileDoesNotExist ''gone.py'') example_state, 0)"
proof -
  have h: "\<not> path_exists (example_env '''') (world example_state) (cwd example_state) ''gone.py''"
    by (simp add: example_env_def)
  from missing_file_skipped [OF h, of "[''pylint'']" False 0 "[]" "[''gjslint'']"] h
  show ?thesis by simp
qed







text \<open>
  What a round, and the loop, add to the output: never the hint; and the flag is set
  after it exactly if it was set before or one of the printed exceptions has a line
  that starts with \<open>F0401:\<close>.
\<close>

lemma py_lint_file_out:
  "\<exists>evs. out (fst (py_lint_file env pylint_cmd pyfile (st, flag, n))) = out st @ evs \<and>
         ImportHint \<notin> set evs \<and>
         (fst (snd (py_lint_file env pylint_cmd pyfile (st, flag, n))) \<longleftrightarrow>
            flag \<or> (\<exists>e. ExceptionText e \<in> set evs \<and> has_F0401 e))"
  by (auto simp add: py_lint_file_def run_command_def emit_def Let_def
        split: prod.splits sum.splits)

lemma py_loop_out:
  "\<exists>evs. out (fst (py_loop env pylint_cmd changeset (st, flag, n))) = out st @ evs \<and>
         ImportHint \<notin> set evs \<and>
         (fst (snd (py_loop env pylint_cmd changeset (st, flag, n))) \<longleftrightarrow>
            flag \<or> (\<exists>e. ExceptionText e \<in> set evs \<and> has_F0401 e))"
proof (induction changeset arbitrary: st flag n)
  case Nil
  show ?case by simp
next
  case (Cons pyfile changeset)
  obtain st1 flag1 n1 where step: "py_lint_file env pylint_cmd pyfile (st, flag, n) = (st1, flag1, n1)"
    by (cases "py_lint_file env pylint_cmd pyfile (st, flag, n)") auto
  from py_lint_file_out [of env pylint_cmd pyfile st flag n] step
  obtain evs1 where e1: "out st1 = out st @ evs1" "ImportHint \<notin> set evs1"
    "flag1 \<longleftrightarrow> flag \<or> (\<exists>e. ExceptionText e \<in> set evs1 \<and> has_F0401 e)"
    by auto
  from Cons.IH [of st1 flag1 n1]
  obtain evs2 where e2: "out (fst (py_loop env pylint_cmd changeset (st1, flag1, n1))) = out st1 @ evs2"
    "ImportHint \<notin> set evs2"
    "fst (snd (py_loop env pylint_cmd changeset (st1, flag1, n1))) \<longleftrightarrow>
       flag1 \<or> (\<exists>e. ExceptionText e \<in> set evs2 \<and> has_F0401 e)"
    by auto
  have "out (fst (py_loop env pylint_cmd (pyfile # changeset) (st, flag, n))) = out st @ (evs1 @ evs2)"
    using step e1(1) e2(1) by simp
  moreover have "ImportHint \<notin> set (evs1 @ evs2)"
    using e1(2) e2(2) by simp
  moreover have "fst (snd (py_loop env pylint_cmd (pyfile # changeset) (st, flag, n))) \<longleftrightarrow>
       flag \<or> (\<exists>e. ExceptionText e \<in> set (evs1 @ evs2) \<and> has_F0401 e)"
    using step e1(3) e2(3) by auto
  ultimately show ?case by blast
qed

text \<open>
  The flag after a round, and after the loop, against what the checker raised: it is
  set exactly if it was set before or a failure of the checker on a file that exists
  has a line that starts with \<open>F0401:\<close>.
\<close>

lemma py_lint_file_world_flag:
  "world (fst (py_lint_file env pylint_cmd pyfile (st, flag, n))) =
     (if path_exists env (world st) (cwd st) pyfile
      then snd (GetCommandOutput env (world st) (fst (path_split (abspath env (cwd st) pyfile)))
                  (pylint_cmd @ [snd (path_split (abspath env (cwd st) pyfile))]))
      else world st) \<and>
   (fst (snd (py_lint_file env pylint_cmd pyfile (st, flag, n))) \<longleftrightarrow>
      flag \<or> (path_exists env (world st) (cwd st) pyfile \<and>
              (case fst (GetCommandOutput env (world st)
                           (fst (path_split (abspath env (cwd st) pyfile)))
                           (pylint_cmd @ [snd (path_split (abspath env (cwd st) pyfile))])) of
                 Inl e \<Rightarrow> has_F0401 e
               | Inr raw \<Rightarrow> False)))"
  by (auto simp add: py_lint_file_def run_command_def emit_def Let_def
        split: prod.splits sum.splits)

lemma py_loop_flag:
  "fst (snd (py_loop env pylint_cmd changeset (st, flag, n))) \<longleftrightarrow>
     flag \<or> list_ex has_F0401 (py_checker_failures env pylint_cmd changeset (world st) (cwd st))"
proof (induction changeset arbitrary: st flag n)
  case Nil
  show ?case by simp
next
  case (Cons pyfile changeset)
  obtain st1 flag1 n1 where step:
    "py_lint_file env pylint_cmd pyfile (st, flag, n) = (st1, flag1, n1)"
    by (cases "py_lint_file env pylint_cmd pyfile (st, flag, n)") auto
  have c: "cwd st1 = cwd st"
    using py_lint_file_cwd [of env pylint_cmd pyfile "(st, flag, n)"] step by simp
  obtain py_dir py_name where sp: "path_split (abspath env (cwd st) pyfile) = (py_dir, py_name)"
    by (cases "path_split (abspath env (cwd st) pyfile)") auto
  obtain r w1 where run: "GetCommandOutput env (world st) py_dir (pylint_cmd @ [py_name]) = (r, w1)"
    by (cases "GetCommandOutput env (world st) py_dir (pylint_cmd @ [py_name])") auto
  from py_lint_file_world_flag [of env pylint_cmd pyfile st flag n] step sp run
  have w: "world st1 = (if path_exists env (world st) (cwd st) pyfile then w1 else world st)"
    and f: "flag1 \<longleftrightarrow> flag \<or> (path_exists env (world st) (cwd st) pyfile \<and>
              (case r of Inl e \<Rightarrow> has_F0401 e | Inr raw \<Rightarrow> False))"
    by simp_all
  have "fst (snd (py_loop env pylint_cmd (pyfile # changeset) (st, flag, n))) \<longleftrightarrow>
          flag1 \<or> list_ex has_F0401
                     (py_checker_failures env pylint_cmd changeset (world st1) (cwd st1))"
    using step Cons.IH [of st1 flag1 n1] by simp
  also have "\<dots> \<longleftrightarrow> flag \<or> list_ex has_F0401
       (py_checker_failures env pylint_cmd (pyfile # changeset) (world st) (cwd st))"
    using w f c sp run by (cases r) auto
  finally show ?case .
qed

text \<open>The failures of the checker in two runs of the example.\<close>

lemma example_two_failures:
  "py_checker_failures (example_env '''') [''pylint''] [''broken.py'', ''a.py'', ''broken.py'']
     (world example_state) (cwd example_state) =
     [''pylint broken.py: ************* Module broken'' @ [CHR 0x0A] @
      ''F0401:  1: Unable to import utils'' @ [CHR 0x0A],
      ''pylint broken.py: ************* Module broken'' @ [CHR 0x0A] @
      ''F0401:  1: Unable to import utils'' @ [CHR 0x0A]] \<and>
   py_checker_failures (example_env '''') [''pylint''] [''a.py'', ''blank.py'', ''gone.py'']
     (world example_state) (cwd example_state) = []"
  by code_simp

lemma example_two_marked:
  "list_ex has_F0401
     (py_checker_failures (example_env '''')
        (if startswith (platform (example_env '''')) ''win'' then [''pylint.bat'']
         else [''pylint''])
        [''broken.py'', ''a.py'', ''broken.py''] (world example_state) (cwd example_state))"
  by code_simp

lemma example_none_marked:
  "\<not> list_ex has_F0401
     (py_checker_failures (example_env '''')
        (if startswith (platform (example_env '''')) ''win'' then [''pylint.bat'']
         else [''pylint''])
        [''a.py'', ''blank.py'', ''gone.py''] (world example_state) (cwd example_state))"
  by code_simp

text \<open>
  C8. The output of \<open>do_py_lint\<close> is the banner, the lines of the loop, the hint once if
  one or more of the execution failures that the checker raises during the run has a
  line that starts with \<open>F0401:\<close> and not at all if none has, and the error count last;
  the lines of the loop hold no hint.
\<close>

theorem import_hint_once_per_run:
  "\<exists>body. out (snd (do_py_lint env changeset st)) =
            out st @ PyBanner # body @
              (if list_ex has_F0401
                    (py_checker_failures env
                       (if startswith (platform env) ''win'' then [''pylint.bat'']
                        else [''pylint''])
                       changeset (world st) (cwd st))
               then [ImportHint] else []) @
              [PylintErrors (fst (do_py_lint env changeset st))] \<and>
          ImportHint \<notin> set body"
proof -
  define pylint_cmd where
    "pylint_cmd = (if startswith (platform env) ''win'' then [''pylint.bat''] else [''pylint''])"
  obtain st1 flag1 n1 where loop:
    "py_loop env pylint_cmd changeset (emit PyBanner st, False, 0) = (st1, flag1, n1)"
    by (cases "py_loop env pylint_cmd changeset (emit PyBanner st, False, 0)") auto
  from py_loop_out [of env pylint_cmd changeset "emit PyBanner st" False 0] loop
  obtain body where b: "out st1 = out (emit PyBanner st) @ body" "ImportHint \<notin> set body"
    by auto
  from py_loop_flag [of env pylint_cmd changeset "emit PyBanner st" False 0] loop
  have f: "flag1 \<longleftrightarrow>
      list_ex has_F0401 (py_checker_failures env pylint_cmd changeset (world st) (cwd st))"
    by (simp add: emit_def)
  have res: "do_py_lint env changeset st =
      (n1, emit (PylintErrors n1) (if flag1 then emit ImportHint st1 else st1))"
    using loop by (simp add: do_py_lint_def Let_def flip: pylint_cmd_def)
  have "out (snd (do_py_lint env changeset st)) =
            out st @ PyBanner # body @
              (if list_ex has_F0401
                    (py_checker_failures env pylint_cmd changeset (world st) (cwd st))
               then [ImportHint] else []) @
              [PylintErrors (fst (do_py_lint env changeset st))]"
    using b(1) f by (simp add: res emit_def)
  with b(2) show ?thesis unfolding pylint_cmd_def by blast
qed

theorem import_hint_once_per_run_witness:
  "length (filter has_F0401
     (py_checker_failures (example_env '''') [''pylint''] [''broken.py'', ''a.py'', ''broken.py'']
        (world example_state) (cwd example_state))) = 2 \<and>
   count_list (out (snd (do_py_lint (example_env '''') [''broken.py'', ''a.py'', ''broken.py'']
                           example_state))) ImportHint = 1 \<and>
   length (filter has_F0401
     (py_checker_failures (example_env '''') [''pylint''] [''a.py'', ''blank.py'', ''gone.py'']
        (world example_state) (cwd example_state))) = 0 \<and>
   count_list (out (snd (do_py_lint (example_env '''') [''a.py'', ''blank.py'', ''gone.py'']
                           example_state))) ImportHint = 0"
proof -
  let ?two = "[''broken.py'', ''a.py'', ''broken.py'']"
  let ?none = "[''a.py'', ''blank.py'', ''gone.py'']"
  have o: "out example_state = []" by (simp add: example_state_def)
  from import_hint_once_per_run [of "example_env ''''" ?two example_state]
  obtain body2 where b2:
    "out (snd (do_py_lint (example_env '''') ?two example_state)) =
       out example_state @ PyBanner # body2 @
         (if list_ex has_F0401
               (py_checker_failures (example_env '''')
                  (if startswith (platform (example_env '''')) ''win'' then [''pylint.bat'']
                   else [''pylint''])
                  ?two (world example_state) (cwd example_state))
          then [ImportHint] else []) @
         [PylintErrors (fst (do_py_lint (example_env '''') ?two example_state))]"
    "ImportHint \<notin> set body2"
    by blast
  from import_hint_once_per_run [of "example_env ''''" ?none example_state]
  obtain body0 where b0:
    "out (snd (do_py_lint (example_env '''') ?none example_state)) =
       out example_state @ PyBanner # body0 @
         (if list_ex has_F0401
               (py_checker_failures (example_env '''')
                  (if startswith (platform (example_env '''')) ''win'' then [''pylint.bat'']
                   else [''pylint''])
                  ?none (world example_state) (cwd example_state))
          then [ImportHint] else []) @
         [PylintErrors (fst (do_py_lint (example_env '''') ?none example_state))]"
    "ImportHint \<notin> set body0"
    by blast
  from b2(1) example_two_marked
  have e2: "out (snd (do_py_lint (example_env '''') ?two example_state)) =
       out example_state @ PyBanner # body2 @ [ImportHint] @
         [PylintErrors (fst (do_py_lint (example_env '''') ?two example_state))]"
    by (simp only: if_True)
  from b0(1) example_none_marked
  have e0: "out (snd (do_py_lint (example_env '''') ?none example_state)) =
       out example_state @ PyBanner # body0 @ [] @
         [PylintErrors (fst (do_py_lint (example_env '''') ?none example_state))]"
    by (simp only: if_False)
  from b2(2) have z2: "count_list body2 ImportHint = 0" by (simp add: count_list_0_iff)
  from b0(2) have z0: "count_list body0 ImportHint = 0" by (simp add: count_list_0_iff)
  have c2: "count_list (out (snd (do_py_lint (example_env '''') ?two example_state))) ImportHint = 1"
    by (simp only: e2 o) (simp add: z2)
  have c0: "count_list (out (snd (do_py_lint (example_env '''') ?none example_state))) ImportHint = 0"
    by (simp only: e0 o) (simp add: z0)
  have l2: "length (filter has_F0401
     (py_checker_failures (example_env '''') [''pylint''] ?two
        (world example_state) (cwd example_state))) = 2"
    by code_simp
  have l0: "length (filter has_F0401
     (py_checker_failures (example_env '''') [''pylint''] ?none
        (world example_state) (cwd example_state))) = 0"
    by code_simp
  from l2 c2 l0 c0 show ?thesis by (intro conjI)
qed

text \<open>A run with two such failures prints the hint once, before the count.\<close>

lemma example_import_hint:
  "out (snd (do_py_lint (example_env '''') [''broken.py'', ''a.py'', ''broken.py''] example_state))
     = [PyBanner,
        PylintFile ''broken.py'',
        ExceptionText (''pylint broken.py: ************* Module broken'' @ [CHR 0x0A] @
                       ''F0401:  1: Unable to import utils'' @ [CHR 0x0A]),
        PylintFile ''a.py'', CheckerOutput ''C:  1: Missing docstring'',
        PylintFile ''broken.py'',
        ExceptionText (''pylint broken.py: ************* Module broken'' @ [CHR 0x0A] @
                       ''F0401:  1: Unable to import utils'' @ [CHR 0x0A]),
        ImportHint, PylintErrors 2]"
  by code_simp

section \<open>Properties of the aggregation\<close>

text \<open>The counts of the two per-file checkers only grow from zero.\<close>

lemma py_lint_file_mono:
  "snd (snd acc) \<le> snd (snd (py_lint_file env pylint_cmd pyfile acc))"
  by (simp add: py_lint_file_def run_command_def Let_def split: prod.splits sum.splits)

lemma py_loop_mono:
  "snd (snd acc) \<le> snd (snd (py_loop env pylint_cmd changeset acc))"
proof (induction changeset arbitrary: acc)
  case Nil
  show ?case by simp
next
  case (Cons pyfile changeset)
  have "snd (snd acc) \<le> snd (snd (py_lint_file env pylint_cmd pyfile acc))"
    by (rule py_lint_file_mono)
  also have "\<dots> \<le> snd (snd (py_loop env pylint_cmd changeset (py_lint_file env pylint_cmd pyfile acc)))"
    by (rule Cons.IH)
  finally show ?case by simp
qed

lemma js_lint_file_mono:
  "snd acc \<le> snd (js_lint_file env jslint_cmd jsfile acc)"
  by (simp add: js_lint_file_def run_command_def Let_def split: prod.splits sum.splits)

lemma js_loop_mono:
  "snd acc \<le> snd (js_loop env jslint_cmd changeset acc)"
proof (induction changeset arbitrary: acc)
  case Nil
  show ?case by simp
next
  case (Cons jsfile changeset)
  have "snd acc \<le> snd (js_lint_file env jslint_cmd jsfile acc)"
    by (rule js_lint_file_mono)
  also have "\<dots> \<le> snd (js_loop env jslint_cmd changeset (js_lint_file env jslint_cmd jsfile acc))"
    by (rule Cons.IH)
  finally show ?case by simp
qed

lemma do_py_lint_nonneg: "0 \<le> fst (do_py_lint env changeset st)"
proof -
  define pylint_cmd where
    "pylint_cmd = (if startswith (platform env) ''win'' then [''pylint.bat''] else [''pylint''])"
  obtain st1 flag n where loop:
    "py_loop env pylint_cmd changeset (emit PyBanner st, False, 0) = (st1, flag, n)"
    by (cases "py_loop env pylint_cmd changeset (emit PyBanner st, False, 0)") auto
  from py_loop_mono [of "(emit PyBanner st, False, 0)" env pylint_cmd changeset] loop
  have "0 \<le> n" by simp
  then show ?thesis
    using loop by (simp add: do_py_lint_def Let_def flip: pylint_cmd_def)
qed

lemma do_js_lint_nonneg: "0 \<le> fst (do_js_lint env changeset st)"
proof -
  define jslint_cmd where
    "jslint_cmd = (if startswith (platform env) ''win'' then [''gjslint.exe''] else [''gjslint''])"
  obtain st1 n where loop: "js_loop env jslint_cmd changeset (emit JsBanner st, 0) = (st1, n)"
    by (cases "js_loop env jslint_cmd changeset (emit JsBanner st, 0)") auto
  from js_loop_mono [of "(emit JsBanner st, 0)" env jslint_cmd changeset] loop
  have "0 \<le> n" by simp
  then show ?thesis
    using loop by (simp add: do_js_lint_def Let_def flip: jslint_cmd_def)
qed

text \<open>Conversely, when each part returns, \<open>do_lint\<close> returns their sum.\<close>

lemma do_lint_of_parts:
  assumes "(case base of None \<Rightarrow> get_tracking_remote env st | Some b \<Rightarrow> Inr (b, st)) = Inr (base1, st0)"
    and "get_change_file_list env base1 st0 = Inr ((changes_py, changes_js, changes_others), st1)"
    and "do_cpp_lint env changes_others args st1 = Inr (n_cpp, st2)"
    and "do_py_lint env changes_py st2 = (n_py, st3)"
    and "do_js_lint env changes_js st3 = (n_js, st4)"
  shows "do_lint env base args st =
           Inr (n_cpp + n_py + n_js, emit (TotalErrors (n_cpp + n_py + n_js)) st4)"
  using assms by (simp add: do_lint_def Let_def)

text \<open>The run of the example repository.\<close>

lemma example_run:
  "do_lint (example_env '''') None [] example_state =
     Inr (2, example_state\<lparr>out :=
               [BaseNotSpecified ''HEAD~'', SkipCommonDir, CppBanner, CppFile ''c.h'',
                CpplintErrors 2, PyBanner, PylintFile ''a.py'',
                CheckerOutput ''C:  1: Missing docstring'', PylintErrors 0, JsBanner,
                JslintFile ''b.js'', CheckerOutput ''1 files checked, no errors found.'',
                JslintErrors 0, TotalErrors 2],
             lint := 2\<rparr>)"
  by code_simp

text \<open>
  C7. Whenever \<open>do_lint\<close> returns, the base was resolved, the changes were listed, the
  three dispatchers returned in turn, and the value returned is the sum of their three
  counts, of which the two per-file counts are not negative; the total is printed last,
  and \<open>main\<close> ends with \<open>SystemExit\<close> of that total.
\<close>

theorem do_lint_returns_sum:
  assumes "do_lint env base args st = Inr (total_erros, st')"
  shows "\<exists>base1 st0 changes_py changes_js changes_others st1 n_cpp st2 n_py st3 n_js st4.
           (case base of None \<Rightarrow> get_tracking_remote env st | Some b \<Rightarrow> Inr (b, st))
             = Inr (base1, st0) \<and>
           get_change_file_list env base1 st0
             = Inr ((changes_py, changes_js, changes_others), st1) \<and>
           do_cpp_lint env changes_others args st1 = Inr (n_cpp, st2) \<and>
           do_py_lint env changes_py st2 = (n_py, st3) \<and>
           do_js_lint env changes_js st3 = (n_js, st4) \<and>
           total_erros = n_cpp + n_py + n_js \<and> 0 \<le> n_py \<and> 0 \<le> n_js \<and>
           st' = emit (TotalErrors total_erros) st4 \<and>
           main env base args st = SystemExit total_erros"
proof -
  from assms obtain base1 st0 where
    b: "(case base of None \<Rightarrow> get_tracking_remote env st | Some b \<Rightarrow> Inr (b, st)) = Inr (base1, st0)"
    by (auto simp add: do_lint_def split: sum.splits)
  from assms b obtain changes_py changes_js changes_others st1 where
    c: "get_change_file_list env base1 st0 = Inr ((changes_py, changes_js, changes_others), st1)"
    by (auto simp add: do_lint_def split: sum.splits)
  from assms b c obtain n_cpp st2 where
    cpp: "do_cpp_lint env changes_others args st1 = Inr (n_cpp, st2)"
    by (auto simp add: do_lint_def split: sum.splits)
  obtain n_py st3 where py: "do_py_lint env changes_py st2 = (n_py, st3)"
    by (cases "do_py_lint env changes_py st2") auto
  obtain n_js st4 where js: "do_js_lint env changes_js st3 = (n_js, st4)"
    by (cases "do_js_lint env changes_js st3") auto
  from do_lint_of_parts [OF b c cpp py js] assms
  have t: "total_erros = n_cpp + n_py + n_js" and s: "st' = emit (TotalErrors total_erros) st4"
    by simp_all
  have m: "main env base args st = SystemExit total_erros"
    by (simp add: main_def assms)
  from do_py_lint_nonneg [of env changes_py st2] py have p0: "0 \<le> n_py" by simp
  from do_js_lint_nonneg [of env changes_js st3] js have j0: "0 \<le> n_js" by simp
  from b c cpp py js t s m p0 j0 show ?thesis by blast
qed

theorem do_lint_returns_sum_witness:
  "do_lint (example_env '''') None [] example_state =
     Inr (2, example_state\<lparr>out :=
               [BaseNotSpecified ''HEAD~'', SkipCommonDir, CppBanner, CppFile ''c.h'',
                CpplintErrors 2, PyBanner, PylintFile ''a.py'',
                CheckerOutput ''C:  1: Missing docstring'', PylintErrors 0, JsBanner,
                JslintFile ''b.js'', CheckerOutput ''1 files checked, no errors found.'',
                JslintErrors 0, TotalErrors 2],
             lint := 2\<rparr>) \<and>
   (\<exists>base1 st0 changes_py changes_js changes_others st1 n_cpp st2 n_py st3 n_js st4.
      get_tracking_remote (example_env '''') example_state = Inr (base1, st0) \<and>
      get_change_file_list (example_env '''') base1 st0
        = Inr ((changes_py, changes_js, changes_others), st1) \<and>
      do_cpp_lint (example_env '''') changes_others [] st1 = Inr (n_cpp, st2) \<and>
      do_py_lint (example_env '''') changes_py st2 = (n_py, st3) \<and>
      do_js_lint (example_env '''') changes_js st3 = (n_js, st4) \<and>
      2 = n_cpp + n_py + n_js \<and> 0 \<le> n_py \<and> 0 \<le> n_js) \<and>
   main (example_env '''') None [] example_state = SystemExit 2"
  using do_lint_returns_sum [OF example_run] example_run
  by (simp, blast)

end
